theory Spec2Isabelle
  imports Complex_Main
begin

section \<open>Values of the host language\<close>

text \<open>
  A JavaScript \<open>number\<close> is a finite value, \<open>NaN\<close> or one of the two infinities. Finite
  values are modelled as reals (both zeros are \<open>Num 0\<close>). An optional parameter that was
  not passed is \<open>None\<close>.
\<close>

datatype number = Num real | NaN | PosInfinity | NegInfinity

text \<open>The truthiness test that a conditional applies to a number.\<close>

fun toBoolean :: "number \<Rightarrow> bool" where
  "toBoolean (Num x) = (x \<noteq> 0)"
| "toBoolean NaN = False"
| "toBoolean PosInfinity = True"
| "toBoolean NegInfinity = True"

text \<open>
  Everything that can be thrown. \<open>TypeError\<close> is what the runtime raises on a property
  access through \<open>undefined\<close>; the others are the error classes of the external
  collaborators.
\<close>

datatype error = TypeError | LoadError | ConversionError | UseAfterDisposeError | ShapeError

definition bindE :: "error + 'a \<Rightarrow> ('a \<Rightarrow> error + 'b) \<Rightarrow> error + 'b" where
  "bindE r f = (case r of Inl e \<Rightarrow> Inl e | Inr a \<Rightarrow> f a)"

definition bindS ::
  "('s \<Rightarrow> (error + 'a) \<times> 's) \<Rightarrow> ('a \<Rightarrow> 's \<Rightarrow> (error + 'b) \<times> 's) \<Rightarrow> 's \<Rightarrow> (error + 'b) \<times> 's" where
  "bindS m f s = (case m s of (Inl e, s') \<Rightarrow> (Inl e, s') | (Inr a, s') \<Rightarrow> f a s')"

definition liftE :: "error + 'a \<Rightarrow> 's \<Rightarrow> (error + 'a) \<times> 's" where
  "liftE r s = (r, s)"

section \<open>Tensor objects and the model instance\<close>

text \<open>
  Tensors are objects shared by reference: the same object may be reachable through
  \<open>rawVars\<close> and through one of the named fields. A tensor object holds an immutable value
  and the flag that \<open>dispose\<close> sets. A reference is the position of the object in the heap.
\<close>

type_synonym ref = nat

record 't tensorObj =
  tval :: 't
  isDisposed :: bool

type_synonym 't heap = "'t tensorObj list"

text \<open>\<open>xs[i]\<close> on an array: undefined when out of range.\<close>

definition elemAt :: "'a list \<Rightarrow> nat \<Rightarrow> 'a option" where
  "elemAt xs i = (if i < length xs then Some (xs ! i) else None)"

text \<open>The fields of class \<open>MelodyRnn\<close>; a field that was never assigned is \<open>None\<close>.\<close>

record MelodyRnn =
  checkpointURL :: string
  rawVars :: "(string \<times> ref) list option"
  lstmKernel1 :: "ref option"
  lstmBias1 :: "ref option"
  lstmKernel2 :: "ref option"
  lstmBias2 :: "ref option"
  lstmFcB :: "ref option"
  lstmFcW :: "ref option"

record ('t, 'g) state =
  self :: MelodyRnn
  heap :: "'t heap"
  rng :: 'g

record 'n INoteSequence =
  noteList :: "'n list"
  totalQuantizedSteps :: "int option"

record MelodyConverter =
  numSteps :: "int option"
  minPitch :: int
  maxPitch :: int

section \<open>The external collaborators\<close>

text \<open>
  The tensor library (\<open>dl\<close>) and the data converter of the core package are not part of
  the model class. Their operations are parameters: each may throw, \<open>dl_multinomial\<close> is
  the only one that consumes the random generator, and \<open>dl_getAllVariables\<close> creates the
  tensor objects it returns.
\<close>

record ('t, 'g, 'n) dl =
  dl_getAllVariables :: "string \<Rightarrow> 't heap \<Rightarrow> (error + (string \<times> ref) list) \<times> 't heap"
  dl_toTensor :: "MelodyConverter \<Rightarrow> 'n INoteSequence \<Rightarrow> error + 't"
  dl_shape1D :: "'t \<Rightarrow> nat"
  dl_shape2D :: "'t \<Rightarrow> nat \<times> nat"
  dl_scalar :: "number \<Rightarrow> error + 't"
  dl_zeros :: "number list \<Rightarrow> error + 't"
  dl_basicLSTMCell :: "'t \<Rightarrow> 't \<Rightarrow> 't \<Rightarrow> 't \<Rightarrow> 't \<Rightarrow> 't \<Rightarrow> error + ('t \<times> 't)"
  dl_multiRNNCell ::
    "('t \<Rightarrow> 't \<Rightarrow> 't \<Rightarrow> error + ('t \<times> 't)) list \<Rightarrow> 't \<Rightarrow> 't list \<Rightarrow> 't list
      \<Rightarrow> error + ('t list \<times> 't list)"
  dl_slice :: "'t \<Rightarrow> nat list \<Rightarrow> nat list \<Rightarrow> error + 't"
  dl_as2D :: "'t \<Rightarrow> nat \<Rightarrow> nat \<Rightarrow> error + 't"
  dl_matMul :: "'t \<Rightarrow> 't \<Rightarrow> error + 't"
  dl_add :: "'t \<Rightarrow> 't \<Rightarrow> error + 't"
  dl_div :: "'t \<Rightarrow> 't \<Rightarrow> error + 't"
  dl_multinomial :: "'t \<Rightarrow> nat \<Rightarrow> 'g \<Rightarrow> (error + 't) \<times> 'g"
  dl_argMax :: "'t \<Rightarrow> nat \<Rightarrow> error + 't"
  dl_as1D :: "'t \<Rightarrow> error + 't"
  dl_oneHot :: "'t \<Rightarrow> nat \<Rightarrow> error + 't"
  dl_toFloat :: "'t \<Rightarrow> error + 't"
  dl_asScalar :: "'t \<Rightarrow> error + 't"
  dl_scalarData :: "'t \<Rightarrow> error + number"

section \<open>Class MelodyRnn\<close>

definition CHECKPOINT_URL :: string where
  "CHECKPOINT_URL = ''https://storage.googleapis.com/download.magenta.tensorflow.org/models/music_rnn/dljs/basic_rnn/manifest.json''"

definition DEFAULT_MIN_NOTE :: int where
  "DEFAULT_MIN_NOTE = 48"

definition DEFAULT_MAX_NOTE :: int where
  "DEFAULT_MAX_NOTE = 84"

text \<open>The constructor assigns \<open>checkpointURL\<close> and nothing else.\<close>

definition constructor :: "string option \<Rightarrow> MelodyRnn" where
  "constructor checkpointURL' =
     \<lparr> checkpointURL = (case checkpointURL' of None \<Rightarrow> CHECKPOINT_URL | Some u \<Rightarrow> u),
       rawVars = None,
       lstmKernel1 = None, lstmBias1 = None, lstmKernel2 = None, lstmBias2 = None,
       lstmFcB = None, lstmFcW = None \<rparr>"

text \<open>\<open>t.dispose()\<close> on the tensor object behind a reference.\<close>

definition disposeTensor :: "'t heap \<Rightarrow> ref \<Rightarrow> 't heap" where
  "disposeTensor hp r =
     (case elemAt hp r of None \<Rightarrow> hp | Some obj \<Rightarrow> hp[r := obj\<lparr>isDisposed := True\<rparr>])"

text \<open>
  \<open>dispose\<close>: \<open>Object.keys(this.rawVars)\<close> throws when \<open>rawVars\<close> is undefined; otherwise
  every tensor stored in it is disposed.
\<close>

definition dispose :: "('t, 'g) state \<Rightarrow> (error + unit) \<times> ('t, 'g) state" where
  "dispose s =
     (case rawVars (self s) of
        None \<Rightarrow> (Inl TypeError, s)
      | Some vars \<Rightarrow>
          (Inr (), s\<lparr>heap := fold (\<lambda>(name, r) hp. disposeTensor hp r) vars (heap s)\<rparr>))"

text \<open>
  \<open>initialize\<close>: load all variables and assign the six named fields. A name absent from
  the checkpoint leaves its field undefined. \<open>rawVars\<close> is not assigned.
\<close>

definition initialize ::
  "('t, 'g, 'n) dl \<Rightarrow> ('t, 'g) state \<Rightarrow> (error + unit) \<times> ('t, 'g) state" where
  "initialize lib s =
     (case dl_getAllVariables lib (checkpointURL (self s)) (heap s) of
        (Inl e, hp) \<Rightarrow> (Inl e, s\<lparr>heap := hp\<rparr>)
      | (Inr vars, hp) \<Rightarrow>
          (Inr (),
           s\<lparr>heap := hp,
             self := (self s)
               \<lparr>lstmKernel1 := map_of vars ''RNN/MultiRNNCell/Cell0/BasicLSTMCell/Linear/Matrix'',
                lstmBias1 := map_of vars ''RNN/MultiRNNCell/Cell0/BasicLSTMCell/Linear/Bias'',
                lstmKernel2 := map_of vars ''RNN/MultiRNNCell/Cell1/BasicLSTMCell/Linear/Matrix'',
                lstmBias2 := map_of vars ''RNN/MultiRNNCell/Cell1/BasicLSTMCell/Linear/Bias'',
                lstmFcB := map_of vars ''fully_connected/biases'',
                lstmFcW := map_of vars ''fully_connected/weights''\<rparr>\<rparr>))"

section \<open>continueSequence\<close>

text \<open>
  Modelled from the spec: the tensor library's read of a tensor object, which the sources
  only call. After disposal any further read fails with \<open>UseAfterDisposeError\<close>.
\<close>

definition readTensor :: "'t tensorObj \<Rightarrow> error + 't" where
  "readTensor obj = (if isDisposed obj then Inl UseAfterDisposeError else Inr (tval obj))"

text \<open>
  Use of a parameter tensor through a field of \<open>this\<close>: the field may be undefined, and
  then so is the tensor the operation receives.
\<close>

definition deref :: "('t, 'g) state \<Rightarrow> ref option \<Rightarrow> error + 't" where
  "deref s fld =
     (case fld of
        None \<Rightarrow> Inl TypeError
      | Some r \<Rightarrow>
          (case elemAt (heap s) r of
             None \<Rightarrow> Inl TypeError
           | Some obj \<Rightarrow> readTensor obj))"

definition param ::
  "(MelodyRnn \<Rightarrow> ref option) \<Rightarrow> ('t, 'g) state \<Rightarrow> (error + 't) \<times> ('t, 'g) state" where
  "param fld s = (deref s (fld (self s)), s)"

text \<open>\<open>for (let i = ...; i < bound; i++) body\<close>, the body threading its variables.\<close>

function forLoop ::
  "int \<Rightarrow> (nat \<Rightarrow> 'a \<Rightarrow> 's \<Rightarrow> (error + 'a) \<times> 's) \<Rightarrow> nat \<Rightarrow> 'a \<Rightarrow> 's \<Rightarrow> (error + 'a) \<times> 's" where
  "forLoop bound body i a s =
     (if int i < bound then
        (case body i a s of
           (Inl e, s') \<Rightarrow> (Inl e, s')
         | (Inr a', s') \<Rightarrow> forLoop bound body (Suc i) a' s')
      else (Inr a, s))"
  by pat_completeness auto
termination
  by (relation "measure (\<lambda>(bound, body, i, a, s). nat (bound - int i))") auto

declare forLoop.simps [simp del]

text \<open>\<open>dl.zeros([1, this.lstmBiasK.shape[0] / 4])\<close>; the division is not an integer one.\<close>

definition zerosFor ::
  "('t, 'g, 'n) dl \<Rightarrow> (MelodyRnn \<Rightarrow> ref option) \<Rightarrow> ('t, 'g) state \<Rightarrow> (error + 't) \<times> ('t, 'g) state" where
  "zerosFor lib bias =
     bindS (param bias) (\<lambda>b.
     liftE (dl_zeros lib [Num 1, Num (real (dl_shape1D lib b) / 4)]))"

text \<open>The two closures over \<open>this\<close>, called by \<open>multiRNNCell\<close>.\<close>

definition lstm1 ::
  "('t, 'g, 'n) dl \<Rightarrow> 't \<Rightarrow> ('t, 'g) state \<Rightarrow> 't \<Rightarrow> 't \<Rightarrow> 't \<Rightarrow> error + ('t \<times> 't)" where
  "lstm1 lib forgetBias s data c h =
     bindE (deref s (lstmKernel1 (self s))) (\<lambda>kernel.
     bindE (deref s (lstmBias1 (self s))) (\<lambda>bias.
     dl_basicLSTMCell lib forgetBias kernel bias data c h))"

definition lstm2 ::
  "('t, 'g, 'n) dl \<Rightarrow> 't \<Rightarrow> ('t, 'g) state \<Rightarrow> 't \<Rightarrow> 't \<Rightarrow> 't \<Rightarrow> error + ('t \<times> 't)" where
  "lstm2 lib forgetBias s data c h =
     bindE (deref s (lstmKernel2 (self s))) (\<lambda>kernel.
     bindE (deref s (lstmBias2 (self s))) (\<lambda>bias.
     dl_basicLSTMCell lib forgetBias kernel bias data c h))"

text \<open>\<open>h[1].matMul(this.lstmFcW).add(this.lstmFcB)\<close>\<close>

definition logitsOf ::
  "('t, 'g, 'n) dl \<Rightarrow> 't list \<Rightarrow> ('t, 'g) state \<Rightarrow> (error + 't) \<times> ('t, 'g) state" where
  "logitsOf lib h =
     (case elemAt h 1 of
        None \<Rightarrow> liftE (Inl TypeError)
      | Some h1 \<Rightarrow>
          bindS (param lstmFcW) (\<lambda>w.
          bindS (liftE (dl_matMul lib h1 w)) (\<lambda>m.
          bindS (param lstmFcB) (\<lambda>b.
          liftE (dl_add lib m b)))))"

text \<open>\<open>logits.argMax(1).as1D()\<close>\<close>

definition argMaxBranch :: "('t, 'g, 'n) dl \<Rightarrow> 't \<Rightarrow> error + 't" where
  "argMaxBranch lib logits = bindE (dl_argMax lib logits 1) (dl_as1D lib)"

text \<open>\<open>dl.multinomial(logits.div(dl.scalar(temperature)), 1).as1D()\<close>\<close>

definition multinomialBranch ::
  "('t, 'g, 'n) dl \<Rightarrow> number \<Rightarrow> 't \<Rightarrow> ('t, 'g) state \<Rightarrow> (error + 't) \<times> ('t, 'g) state" where
  "multinomialBranch lib t logits =
     bindS (liftE (dl_scalar lib t)) (\<lambda>temp.
     bindS (liftE (dl_div lib logits temp)) (\<lambda>scaled.
     bindS (\<lambda>s. case dl_multinomial lib scaled 1 (rng s) of (r, g') \<Rightarrow> (r, s\<lparr>rng := g'\<rparr>)) (\<lambda>m.
     liftE (dl_as1D lib m))))"

text \<open>
  The conditional \<open>temperature ? ... : ...\<close> on the optional parameter: undefined is
  falsy, a number is tested by \<open>toBoolean\<close>.
\<close>

definition sampledOutput ::
  "('t, 'g, 'n) dl \<Rightarrow> number option \<Rightarrow> 't \<Rightarrow> ('t, 'g) state \<Rightarrow> (error + 't) \<times> ('t, 'g) state" where
  "sampledOutput lib temperature logits =
     (case temperature of
        None \<Rightarrow> liftE (argMaxBranch lib logits)
      | Some t \<Rightarrow>
          if toBoolean t then multinomialBranch lib t logits
          else liftE (argMaxBranch lib logits))"

text \<open>The first half of the loop body: the next input and the samples after it.\<close>

definition nextInputOf ::
  "('t, 'g, 'n) dl \<Rightarrow> 't \<Rightarrow> nat \<Rightarrow> nat \<Rightarrow> number option \<Rightarrow> nat \<Rightarrow> 't list \<Rightarrow> 't list
    \<Rightarrow> ('t, 'g) state \<Rightarrow> (error + ('t \<times> 't list)) \<times> ('t, 'g) state" where
  "nextInputOf lib inputs length' outputSize temperature i h samples =
     (if i < length' then
        liftE (bindE (dl_slice lib inputs [i, 0] [1, outputSize]) (\<lambda>sl.
               bindE (dl_as2D lib sl 1 outputSize) (\<lambda>nextInput.
               Inr (nextInput, samples))))
      else
        bindS (logitsOf lib h) (\<lambda>logits.
        bindS (sampledOutput lib temperature logits) (\<lambda>sampled.
        liftE (bindE (dl_oneHot lib sampled outputSize) (\<lambda>oh.
               bindE (dl_toFloat lib oh) (\<lambda>nextInput.
               bindE (dl_asScalar lib sampled) (\<lambda>sc.
               Inr (nextInput, samples @ [sc]))))))))"

text \<open>\<open>dl.multiRNNCell([lstm1, lstm2], nextInput, c, h)\<close>\<close>

definition recurrentStep ::
  "('t, 'g, 'n) dl \<Rightarrow> 't \<Rightarrow> 't \<Rightarrow> 't list \<Rightarrow> 't list
    \<Rightarrow> ('t, 'g) state \<Rightarrow> (error + ('t list \<times> 't list)) \<times> ('t, 'g) state" where
  "recurrentStep lib forgetBias nextInput c h s =
     (dl_multiRNNCell lib [lstm1 lib forgetBias s, lstm2 lib forgetBias s] nextInput c h, s)"

text \<open>The loop body; the loop variables are \<open>c\<close>, \<open>h\<close> and \<open>samples\<close>.\<close>

definition loopBody ::
  "('t, 'g, 'n) dl \<Rightarrow> 't \<Rightarrow> nat \<Rightarrow> nat \<Rightarrow> number option \<Rightarrow> 't \<Rightarrow> nat
    \<Rightarrow> 't list \<times> 't list \<times> 't list
    \<Rightarrow> ('t, 'g) state \<Rightarrow> (error + ('t list \<times> 't list \<times> 't list)) \<times> ('t, 'g) state" where
  "loopBody lib inputs length' outputSize temperature forgetBias i vars =
     (case vars of (c, h, samples) \<Rightarrow>
        bindS (nextInputOf lib inputs length' outputSize temperature i h samples)
          (\<lambda>(nextInput, samples').
        bindS (recurrentStep lib forgetBias nextInput c h) (\<lambda>(c', h').
        liftE (Inr (c', h', samples')))))"

text \<open>The second loop: \<open>outputs.push((await sample.data())[0])\<close> for each sample.\<close>

fun collect :: "('t, 'g, 'n) dl \<Rightarrow> 't list \<Rightarrow> number list \<Rightarrow> error + number list" where
  "collect lib [] outputs = Inr outputs"
| "collect lib (sample # rest) outputs =
     bindE (dl_scalarData lib sample) (\<lambda>v. collect lib rest (outputs @ [v]))"

text \<open>
  \<open>continueSequence(sequence, steps, temperature?)\<close>. \<open>steps\<close> is a count, an integer;
  the optional \<open>temperature\<close> is a number or undefined. The result is the rejection or
  the array of the promise, and the state the call leaves.
\<close>

definition continueSequence ::
  "('t, 'g, 'n) dl \<Rightarrow> 'n INoteSequence \<Rightarrow> int \<Rightarrow> number option
    \<Rightarrow> ('t, 'g) state \<Rightarrow> (error + number list) \<times> ('t, 'g) state" where
  "continueSequence lib sequence steps temperature =
     (let converter = \<lparr> numSteps = totalQuantizedSteps sequence,
                        minPitch = DEFAULT_MIN_NOTE, maxPitch = DEFAULT_MAX_NOTE \<rparr>
      in
      bindS (liftE (dl_toTensor lib converter sequence)) (\<lambda>inputs.
      bindS (liftE (dl_scalar lib (Num 1))) (\<lambda>forgetBias.
      let length' = fst (dl_shape2D lib inputs);
          outputSize = snd (dl_shape2D lib inputs)
      in
      bindS (zerosFor lib lstmBias1) (\<lambda>c0.
      bindS (zerosFor lib lstmBias2) (\<lambda>c1.
      bindS (zerosFor lib lstmBias1) (\<lambda>h0.
      bindS (zerosFor lib lstmBias2) (\<lambda>h1.
      bindS (forLoop (int length' + steps)
               (loopBody lib inputs length' outputSize temperature forgetBias)
               0 ([c0, c1], [h0, h1], []))
        (\<lambda>(c, h, samples).
      liftE (collect lib samples [])))))))))"

section \<open>The recurrent cell of the tensor library\<close>

text \<open>
  The tensor operations a recurrent cell is built from; each may throw on a shape
  mismatch.
\<close>

record 't cellOps =
  co_concat :: "'t \<Rightarrow> 't \<Rightarrow> error + 't"
  co_matMul :: "'t \<Rightarrow> 't \<Rightarrow> error + 't"
  co_add :: "'t \<Rightarrow> 't \<Rightarrow> error + 't"
  co_split4 :: "'t \<Rightarrow> error + ('t \<times> 't \<times> 't \<times> 't)"
  co_sigmoid :: "'t \<Rightarrow> error + 't"
  co_tanh :: "'t \<Rightarrow> error + 't"
  co_mul :: "'t \<Rightarrow> 't \<Rightarrow> error + 't"

text \<open>
  Modelled from the spec: \<open>dl.basicLSTMCell\<close>, a function of the tensor library that the
  sources only call. One layer, in the five steps of the spec: concatenate \<open>x\<close> and
  \<open>h\<close>; \<open>gates = concat(x, h) \<cdot> W + b\<close>; split the gates into \<open>i\<close>, \<open>j\<close>, \<open>f\<close>, \<open>o\<close> (here
  \<open>gi\<close>, \<open>gj\<close>, \<open>gf\<close>, \<open>go\<close>);
  \<open>c' = c \<odot> sigmoid(f + forget_bias) + sigmoid(i) \<odot> tanh(j)\<close>;
  \<open>h' = tanh(c') \<odot> sigmoid(o)\<close>.
\<close>

definition basicLSTMCell ::
  "'t cellOps \<Rightarrow> 't \<Rightarrow> 't \<Rightarrow> 't \<Rightarrow> 't \<Rightarrow> 't \<Rightarrow> 't \<Rightarrow> error + ('t \<times> 't)" where
  "basicLSTMCell ops forgetBias W b x c h =
     bindE (co_concat ops x h) (\<lambda>xh.
     bindE (co_matMul ops xh W) (\<lambda>weighted.
     bindE (co_add ops weighted b) (\<lambda>gates.
     bindE (co_split4 ops gates) (\<lambda>(gi, gj, gf, go).
     bindE (co_add ops gf forgetBias) (\<lambda>fb.
     bindE (co_sigmoid ops fb) (\<lambda>keep.
     bindE (co_mul ops c keep) (\<lambda>kept.
     bindE (co_sigmoid ops gi) (\<lambda>gate.
     bindE (co_tanh ops gj) (\<lambda>cand.
     bindE (co_mul ops gate cand) (\<lambda>written.
     bindE (co_add ops kept written) (\<lambda>c'.
     bindE (co_tanh ops c') (\<lambda>squashed.
     bindE (co_sigmoid ops go) (\<lambda>out.
     bindE (co_mul ops squashed out) (\<lambda>h'.
     Inr (c', h')))))))))))))))"

text \<open>
  Modelled from the spec: \<open>dl.multiRNNCell\<close>, a function of the tensor library that the
  sources only call. The layers are stacked: the first consumes the external input and
  its own \<open>(c, h)\<close>, each further layer consumes the new hidden state of the layer below
  and its own \<open>(c, h)\<close>; the stack returns every layer's updated pair.
\<close>

fun multiRNNCell ::
  "('t \<Rightarrow> 't \<Rightarrow> 't \<Rightarrow> error + ('t \<times> 't)) list \<Rightarrow> 't \<Rightarrow> 't list \<Rightarrow> 't list
    \<Rightarrow> error + ('t list \<times> 't list)" where
  "multiRNNCell [] x cs hs = Inr ([], [])"
| "multiRNNCell (cell # cells) x (c # cs) (h # hs) =
     bindE (cell x c h) (\<lambda>(c', h').
     bindE (multiRNNCell cells h' cs hs) (\<lambda>(cs', hs').
     Inr (c' # cs', h' # hs')))"
| "multiRNNCell (cell # cells) x cs hs = Inl TypeError"

section \<open>A reference instance of the collaborators\<close>

text \<open>
  Modelled from the spec: the tensor library and the data converter, which the sources
  only call. Every definition of this section gives one of their operations the standard
  meaning of the name the spec uses for it (matrix multiply, elementwise arithmetic,
  slicing, one-hot encoding, arg-max, a multinomial draw), on tensors of finite reals.
  A matrix carries its number of columns, so that a matrix without rows has a width.
  The instance is what the examples of the later sections run on.
\<close>

datatype tensor = Scalar real | Vec "real list" | Mat nat "real list list"

fun flat :: "tensor \<Rightarrow> real list" where
  "flat (Scalar x) = [x]"
| "flat (Vec xs) = xs"
| "flat (Mat c rows) = concat rows"

fun ref_shape1D :: "tensor \<Rightarrow> nat" where
  "ref_shape1D (Scalar x) = 0"
| "ref_shape1D (Vec xs) = length xs"
| "ref_shape1D (Mat c rows) = length rows"

fun ref_shape2D :: "tensor \<Rightarrow> nat \<times> nat" where
  "ref_shape2D (Scalar x) = (0, 0)"
| "ref_shape2D (Vec xs) = (length xs, 0)"
| "ref_shape2D (Mat c rows) = (length rows, c)"

definition isNat :: "real \<Rightarrow> bool" where
  "isNat r = (r = real (nat \<lfloor>r\<rfloor>))"

fun ref_zeros :: "number list \<Rightarrow> error + tensor" where
  "ref_zeros [Num r, Num c] =
     (if isNat r \<and> isNat c
      then Inr (Mat (nat \<lfloor>c\<rfloor>) (replicate (nat \<lfloor>r\<rfloor>) (replicate (nat \<lfloor>c\<rfloor>) 0)))
      else Inl ShapeError)"
| "ref_zeros dims = Inl ShapeError"

fun ref_scalar :: "number \<Rightarrow> error + tensor" where
  "ref_scalar (Num x) = Inr (Scalar x)"
| "ref_scalar n = Inl ShapeError"

fun mapT :: "(real \<Rightarrow> real) \<Rightarrow> tensor \<Rightarrow> tensor" where
  "mapT f (Scalar x) = Scalar (f x)"
| "mapT f (Vec xs) = Vec (map f xs)"
| "mapT f (Mat c rows) = Mat c (map (map f) rows)"

text \<open>
  Modelled from the spec: elementwise arithmetic. A scalar or a row broadcasts; other
  shapes must agree.
\<close>

fun zipT :: "(real \<Rightarrow> real \<Rightarrow> real) \<Rightarrow> tensor \<Rightarrow> tensor \<Rightarrow> error + tensor" where
  "zipT f (Scalar a) t = Inr (mapT (f a) t)"
| "zipT f (Vec xs) (Scalar b) = Inr (Vec (map (\<lambda>x. f x b) xs))"
| "zipT f (Mat c rows) (Scalar b) = Inr (Mat c (map (map (\<lambda>x. f x b)) rows))"
| "zipT f (Vec xs) (Vec ys) =
     (if length xs = length ys then Inr (Vec (map2 f xs ys)) else Inl ShapeError)"
| "zipT f (Mat c rows) (Vec ys) =
     (if c = length ys then Inr (Mat c (map (\<lambda>r. map2 f r ys) rows)) else Inl ShapeError)"
| "zipT f (Vec xs) (Mat c rows) =
     (if c = length xs then Inr (Mat c (map (\<lambda>r. map2 f xs r) rows)) else Inl ShapeError)"
| "zipT f (Mat c rows) (Mat d rows') =
     (if c = d \<and> length rows = length rows'
      then Inr (Mat c (map2 (map2 f) rows rows')) else Inl ShapeError)"

definition ref_add :: "tensor \<Rightarrow> tensor \<Rightarrow> error + tensor" where
  "ref_add = zipT (+)"

definition ref_mul :: "tensor \<Rightarrow> tensor \<Rightarrow> error + tensor" where
  "ref_mul = zipT (*)"

text \<open>
  Modelled from the spec: elementwise division. A zero divisor leaves the finite reals,
  and the instance refuses it.
\<close>

definition ref_div :: "tensor \<Rightarrow> tensor \<Rightarrow> error + tensor" where
  "ref_div a b = (if 0 \<in> set (flat b) then Inl ShapeError else zipT (/) a b)"

definition sigmoid :: "real \<Rightarrow> real" where
  "sigmoid x = 1 / (1 + exp (- x))"

definition ref_sigmoid :: "tensor \<Rightarrow> error + tensor" where
  "ref_sigmoid t = Inr (mapT sigmoid t)"

definition ref_tanh :: "tensor \<Rightarrow> error + tensor" where
  "ref_tanh t = Inr (mapT tanh t)"

fun ref_concat :: "tensor \<Rightarrow> tensor \<Rightarrow> error + tensor" where
  "ref_concat (Mat c rows) (Mat d rows') =
     (if length rows = length rows' then Inr (Mat (c + d) (map2 (@) rows rows'))
      else Inl ShapeError)"
| "ref_concat a b = Inl ShapeError"

text \<open>
  Modelled from the spec: matrix multiply. A row times a matrix is the sum of the rows of
  the matrix, each scaled by the entry of the row it meets.
\<close>

fun rowTimes :: "nat \<Rightarrow> real list \<Rightarrow> real list list \<Rightarrow> real list" where
  "rowTimes c (x # xs) (r # rs) = map2 (+) (map ((*) x) r) (rowTimes c xs rs)"
| "rowTimes c xs rs = replicate c 0"

fun ref_matMul :: "tensor \<Rightarrow> tensor \<Rightarrow> error + tensor" where
  "ref_matMul (Mat c rows) (Mat d rows') =
     (if c = length rows' then Inr (Mat d (map (\<lambda>r. rowTimes d r rows') rows))
      else Inl ShapeError)"
| "ref_matMul a b = Inl ShapeError"

fun ref_split4 :: "tensor \<Rightarrow> error + (tensor \<times> tensor \<times> tensor \<times> tensor)" where
  "ref_split4 (Mat c rows) =
     (if c mod 4 = 0 then
        (let q = c div 4 in
         Inr (Mat q (map (take q) rows),
              Mat q (map (\<lambda>r. take q (drop q r)) rows),
              Mat q (map (\<lambda>r. take q (drop (2 * q) r)) rows),
              Mat q (map (\<lambda>r. take q (drop (3 * q) r)) rows)))
      else Inl ShapeError)"
| "ref_split4 t = Inl ShapeError"

fun ref_slice :: "tensor \<Rightarrow> nat list \<Rightarrow> nat list \<Rightarrow> error + tensor" where
  "ref_slice (Mat c rows) [i, j] [n, m] =
     (if i + n \<le> length rows \<and> j + m \<le> c
      then Inr (Mat m (map (\<lambda>r. take m (drop j r)) (take n (drop i rows))))
      else Inl ShapeError)"
| "ref_slice t start extent = Inl ShapeError"

definition ref_as2D :: "tensor \<Rightarrow> nat \<Rightarrow> nat \<Rightarrow> error + tensor" where
  "ref_as2D t r c =
     (if length (flat t) = r * c
      then Inr (Mat c (map (\<lambda>k. take c (drop (k * c) (flat t))) [0..<r]))
      else Inl ShapeError)"

definition ref_as1D :: "tensor \<Rightarrow> error + tensor" where
  "ref_as1D t = Inr (Vec (flat t))"

definition ref_asScalar :: "tensor \<Rightarrow> error + tensor" where
  "ref_asScalar t = (case flat t of [x] \<Rightarrow> Inr (Scalar x) | _ \<Rightarrow> Inl ShapeError)"

fun ref_scalarData :: "tensor \<Rightarrow> error + number" where
  "ref_scalarData (Scalar x) = Inr (Num x)"
| "ref_scalarData t = Inl ShapeError"

definition ref_toFloat :: "tensor \<Rightarrow> error + tensor" where
  "ref_toFloat t = Inr t"

text \<open>
  Modelled from the spec: one-hot encoding, a vector with a single 1 at the index of the
  represented symbol and 0 elsewhere; an index that is not a column leaves the row all 0.
\<close>

definition oneHotRow :: "nat \<Rightarrow> real \<Rightarrow> real list" where
  "oneHotRow depth v = map (\<lambda>j. if real j = v then 1 else 0) [0..<depth]"

fun ref_oneHot :: "tensor \<Rightarrow> nat \<Rightarrow> error + tensor" where
  "ref_oneHot (Vec idx) depth = Inr (Mat depth (map (oneHotRow depth) idx))"
| "ref_oneHot t depth = Inl ShapeError"

text \<open>Modelled from the spec: arg-max, the index of the maximum logit (the first one).\<close>

fun argmaxFrom :: "real list \<Rightarrow> nat \<Rightarrow> nat \<Rightarrow> real \<Rightarrow> nat" where
  "argmaxFrom [] i best bv = best"
| "argmaxFrom (x # xs) i best bv =
     (if bv < x then argmaxFrom xs (Suc i) i x else argmaxFrom xs (Suc i) best bv)"

fun argmaxList :: "real list \<Rightarrow> nat" where
  "argmaxList [] = 0"
| "argmaxList (x # xs) = argmaxFrom xs 1 0 x"

fun ref_argMax :: "tensor \<Rightarrow> nat \<Rightarrow> error + tensor" where
  "ref_argMax (Mat c rows) axis =
     (if axis = 1 \<and> 0 < c \<and> (\<forall>r \<in> set rows. length r = c)
      then Inr (Vec (map (\<lambda>r. real (argmaxList r)) rows))
      else Inl ShapeError)"
| "ref_argMax t axis = Inl ShapeError"

text \<open>
  Modelled from the spec: the multinomial draw of one index from a row of logits. The
  random generator is the list of the events it will draw next (event 0 when the list is
  used up); a draw beyond the last event of the row is the last event.
\<close>

fun ref_multinomial :: "tensor \<Rightarrow> nat \<Rightarrow> nat list \<Rightarrow> (error + tensor) \<times> nat list" where
  "ref_multinomial (Mat c rows) numSamples g =
     (if numSamples = 1 \<and> length rows = 1 \<and> 0 < c then
        (case g of
           [] \<Rightarrow> (Inr (Mat 1 [[0]]), [])
         | k # g' \<Rightarrow> (Inr (Mat 1 [[real (min k (c - 1))]]), g'))
      else (Inl ShapeError, g))"
| "ref_multinomial t numSamples g = (Inl ShapeError, g)"

text \<open>
  Modelled from the spec: the data converter, \<open>encode(melody, totalSteps, minNote,
  maxNote)\<close>. A note is a pair of the step it starts at and its pitch. The encoding
  has one one-hot row per step, of width \<open>maxPitch - minPitch + 2\<close>: class 0 for a step
  without a note, class \<open>pitch - minPitch + 2\<close> for a step where a note starts. A melody
  without a step count (not quantized) or with a note outside the grid or the pitch
  range is not encodable.
\<close>

definition classAt :: "MelodyConverter \<Rightarrow> (nat \<times> int) list \<Rightarrow> nat \<Rightarrow> nat" where
  "classAt cv ns k =
     (case find (\<lambda>(st, p). st = k) ns of
        None \<Rightarrow> 0
      | Some (st, p) \<Rightarrow> nat (p - minPitch cv + 2))"

definition ref_toTensor :: "MelodyConverter \<Rightarrow> (nat \<times> int) INoteSequence \<Rightarrow> error + tensor" where
  "ref_toTensor cv sq =
     (case numSteps cv of
        None \<Rightarrow> Inl ConversionError
      | Some n \<Rightarrow>
          if 0 \<le> n \<and> list_all (\<lambda>(st, p). int st < n \<and> minPitch cv \<le> p \<and> p < maxPitch cv)
                         (noteList sq)
          then
            (let depth = nat (maxPitch cv - minPitch cv + 2) in
             Inr (Mat depth
                    (map (\<lambda>k. oneHotRow depth (real (classAt cv (noteList sq) k))) [0..<nat n])))
          else Inl ConversionError)"

text \<open>
  Modelled from the spec: the checkpoint loader, a mapping from variable name to tensor.
  \<open>web\<close> is what each URL holds; the tensors of the checkpoint become new objects at
  the end of the heap.
\<close>

definition ref_getAllVariables ::
  "(string \<Rightarrow> (string \<times> tensor) list option) \<Rightarrow> string \<Rightarrow> tensor heap
    \<Rightarrow> (error + (string \<times> ref) list) \<times> tensor heap" where
  "ref_getAllVariables web url hp =
     (case web url of
        None \<Rightarrow> (Inl LoadError, hp)
      | Some ckpt \<Rightarrow>
          (Inr (zip (map fst ckpt) [length hp ..< length hp + length ckpt]),
           hp @ map (\<lambda>(name, t). \<lparr> tval = t, isDisposed = False \<rparr>) ckpt))"

definition refOps :: "tensor cellOps" where
  "refOps = \<lparr> co_concat = ref_concat, co_matMul = ref_matMul, co_add = ref_add,
              co_split4 = ref_split4, co_sigmoid = ref_sigmoid, co_tanh = ref_tanh,
              co_mul = ref_mul \<rparr>"

definition refLib ::
  "(string \<Rightarrow> (string \<times> tensor) list option) \<Rightarrow> (tensor, nat list, nat \<times> int) dl" where
  "refLib web =
     \<lparr> dl_getAllVariables = ref_getAllVariables web,
       dl_toTensor = ref_toTensor,
       dl_shape1D = ref_shape1D,
       dl_shape2D = ref_shape2D,
       dl_scalar = ref_scalar,
       dl_zeros = ref_zeros,
       dl_basicLSTMCell = basicLSTMCell refOps,
       dl_multiRNNCell = multiRNNCell,
       dl_slice = ref_slice,
       dl_as2D = ref_as2D,
       dl_matMul = ref_matMul,
       dl_add = ref_add,
       dl_div = ref_div,
       dl_multinomial = ref_multinomial,
       dl_argMax = ref_argMax,
       dl_as1D = ref_as1D,
       dl_oneHot = ref_oneHot,
       dl_toFloat = ref_toFloat,
       dl_asScalar = ref_asScalar,
       dl_scalarData = ref_scalarData \<rparr>"

section \<open>Example data\<close>

text \<open>
  A checkpoint whose recurrent layers have hidden size 1 and all-zero weights, so that
  the recurrent state stays zero and the logits are the bias \<open>b\<close> of the
  fully-connected layer. The first kernel has 38 + 1 rows: the width of the encoding for
  the note range 48 to 84, and the hidden size.
\<close>

definition exCheckpoint :: "real list \<Rightarrow> (string \<times> tensor) list" where
  "exCheckpoint b =
     [(''RNN/MultiRNNCell/Cell0/BasicLSTMCell/Linear/Matrix'', Mat 4 (replicate 39 [0, 0, 0, 0])),
      (''RNN/MultiRNNCell/Cell0/BasicLSTMCell/Linear/Bias'', Vec [0, 0, 0, 0]),
      (''RNN/MultiRNNCell/Cell1/BasicLSTMCell/Linear/Matrix'', Mat 4 (replicate 2 [0, 0, 0, 0])),
      (''RNN/MultiRNNCell/Cell1/BasicLSTMCell/Linear/Bias'', Vec [0, 0, 0, 0]),
      (''fully_connected/biases'', Vec b),
      (''fully_connected/weights'', Mat (length b) [replicate (length b) 0])]"

definition exWeb :: "real list \<Rightarrow> string \<Rightarrow> (string \<times> tensor) list option" where
  "exWeb b url = (if url = CHECKPOINT_URL then Some (exCheckpoint b) else None)"

text \<open>A bias of 38 logits with its maximum at index 7, and one of 39 with it at index 38.\<close>

definition exBias :: "real list" where
  "exBias = replicate 7 0 @ 5 # replicate 30 0"


text \<open>A melody of one step with one note, and the same melody before quantization.\<close>

definition exSeq :: "(nat \<times> int) INoteSequence" where
  "exSeq = \<lparr> noteList = [(0, 60)], totalQuantizedSteps = Some 1 \<rparr>"


text \<open>A model after \<open>new MelodyRnn()\<close> and after \<open>initialize()\<close>.\<close>

definition newState :: "nat list \<Rightarrow> (tensor, nat list) state" where
  "newState g = \<lparr> self = constructor None, heap = [], rng = g \<rparr>"

definition exState :: "real list \<Rightarrow> nat list \<Rightarrow> (tensor, nat list) state" where
  "exState b g = snd (initialize (refLib (exWeb b)) (newState g))"

definition zeroState :: tensor where
  "zeroState = Mat 1 [[0]]"

text \<open>Operations that always throw, to observe whether a call reaches them.\<close>

definition failingDiv :: "tensor \<Rightarrow> tensor \<Rightarrow> error + tensor" where
  "failingDiv a b = Inl ShapeError"

definition failingArgMax :: "tensor \<Rightarrow> nat \<Rightarrow> error + tensor" where
  "failingArgMax t axis = Inl ShapeError"

definition failingMultinomial :: "tensor \<Rightarrow> nat \<Rightarrow> nat list \<Rightarrow> (error + tensor) \<times> nat list" where
  "failingMultinomial t n g = (Inl ShapeError, g)"

text \<open>A melody whose only note lies below the note range 48 to 84.\<close>

definition lowSeq :: "(nat \<times> int) INoteSequence" where
  "lowSeq = \<lparr> noteList = [(0, 30)], totalQuantizedSteps = Some 1 \<rparr>"

text \<open>
  A draw that always returns the most probable event of the row it is given, to observe
  the logits that reach the draw.
\<close>

fun modeMultinomial :: "tensor \<Rightarrow> nat \<Rightarrow> nat list \<Rightarrow> (error + tensor) \<times> nat list" where
  "modeMultinomial (Mat c [row]) numSamples g = (Inr (Mat 1 [[real (argmaxList row)]]), g)"
| "modeMultinomial t numSamples g = (Inl ShapeError, g)"

text \<open>A division that throws unless the divisor is the scalar \<open>v\<close>.\<close>

definition divOnlyBy :: "real \<Rightarrow> tensor \<Rightarrow> tensor \<Rightarrow> error + tensor" where
  "divOnlyBy v a b = (if b = Scalar v then ref_div a b else Inl ShapeError)"


text \<open>
  Converters that throw at exactly one setting, and at every setting but one, to observe
  the setting that continueSequence constructs its converter with.
\<close>

definition refusingAt ::
  "MelodyConverter \<Rightarrow> MelodyConverter \<Rightarrow> (nat \<times> int) INoteSequence \<Rightarrow> error + tensor" where
  "refusingAt cv0 cv sq = (if cv = cv0 then Inl ConversionError else ref_toTensor cv sq)"

definition onlyAt ::
  "MelodyConverter \<Rightarrow> MelodyConverter \<Rightarrow> (nat \<times> int) INoteSequence \<Rightarrow> error + tensor" where
  "onlyAt cv0 cv sq = (if cv = cv0 then ref_toTensor cv sq else Inl ConversionError)"

text \<open>The reference instance with four of its operations replaced.\<close>

definition probeLib ::
  "(string \<Rightarrow> (string \<times> tensor) list option)
    \<Rightarrow> (MelodyConverter \<Rightarrow> (nat \<times> int) INoteSequence \<Rightarrow> error + tensor)
    \<Rightarrow> (tensor \<Rightarrow> tensor \<Rightarrow> error + tensor)
    \<Rightarrow> (tensor \<Rightarrow> nat \<Rightarrow> nat list \<Rightarrow> (error + tensor) \<times> nat list)
    \<Rightarrow> (tensor \<Rightarrow> nat \<Rightarrow> error + tensor)
    \<Rightarrow> (tensor, nat list, nat \<times> int) dl" where
  "probeLib w tt dv mn am =
     (refLib w)\<lparr>dl_toTensor := tt, dl_div := dv, dl_multinomial := mn, dl_argMax := am\<rparr>"

section \<open>Notions used in the statements\<close>

text \<open>A temperature that the conditional takes for false.\<close>

definition falsy :: "number option \<Rightarrow> bool" where
  "falsy temperature = (case temperature of None \<Rightarrow> True | Some t \<Rightarrow> \<not> toBoolean t)"

text \<open>An action that leaves the model instance and every tensor object as they are.\<close>

definition frame :: "(('t, 'g) state \<Rightarrow> 'r \<times> ('t, 'g) state) \<Rightarrow> bool" where
  "frame m = (\<forall>s. self (snd (m s)) = self s \<and> heap (snd (m s)) = heap s)"

text \<open>An action that changes nothing and whose result does not depend on the generator.\<close>

definition pureRead :: "(('t, 'g) state \<Rightarrow> 'r \<times> ('t, 'g) state) \<Rightarrow> bool" where
  "pureRead m = (\<forall>s g. m (s\<lparr>rng := g\<rparr>) = (fst (m s), s\<lparr>rng := g\<rparr>))"




section \<open>Sequencing and the loop\<close>

lemma bindS_Inr:
  "bindS m f s = (Inr r, s') \<longleftrightarrow> (\<exists>a s1. m s = (Inr a, s1) \<and> f a s1 = (Inr r, s'))"
  by (auto simp: bindS_def split: prod.splits sum.splits)

lemma bindE_Inr:
  "bindE m f = Inr r \<longleftrightarrow> (\<exists>a. m = Inr a \<and> f a = Inr r)"
  by (auto simp: bindE_def split: sum.splits)

lemma liftE_eq: "liftE r s = (x, s') \<longleftrightarrow> r = x \<and> s' = s"
  by (auto simp: liftE_def)

lemma forLoop_exit: "\<not> int i < bound \<Longrightarrow> forLoop bound body i a s = (Inr a, s)"
  by (simp add: forLoop.simps [of bound body i a s])

lemma forLoop_step_Inr:
  "int i < bound \<Longrightarrow> body i a s = (Inr a1, s1) \<Longrightarrow>
   forLoop bound body i a s = forLoop bound body (Suc i) a1 s1"
  by (simp add: forLoop.simps [of bound body i a s])

lemma forLoop_step_Inl:
  "int i < bound \<Longrightarrow> body i a s = (Inl e, s1) \<Longrightarrow> forLoop bound body i a s = (Inl e, s1)"
  by (simp add: forLoop.simps [of bound body i a s])

text \<open>An invariant of the loop variables and the state holds when the loop returns.\<close>

lemma forLoop_rule:
  assumes "forLoop bound body i a s = (Inr r, s')"
    and "P i a s"
    and "\<forall>j x t x' t'. int j < bound \<longrightarrow> P j x t \<longrightarrow> body j x t = (Inr x', t') \<longrightarrow> P (Suc j) x' t'"
  shows "\<exists>j. P j r s' \<and> \<not> int j < bound"
  using assms
proof (induction bound body i a s rule: forLoop.induct)
  case (1 bound body i a s)
  show ?case
  proof (cases "int i < bound")
    case False
    from forLoop_exit [of i bound body a s, OF False] "1.prems"(1) have "r = a" "s' = s"
      by simp_all
    with "1.prems"(2) False show ?thesis by blast
  next
    case True
    obtain x s1 where b: "body i a s = (x, s1)" by (cases "body i a s")
    show ?thesis
    proof (cases x)
      case (Inl e)
      with forLoop_step_Inl [of i bound body a s e s1, OF True] b "1.prems"(1) show ?thesis
        by simp
    next
      case (Inr a1)
      with b have b': "body i a s = (Inr a1, s1)" by simp
      from forLoop_step_Inr [of i bound body a s a1 s1, OF True b'] "1.prems"(1)
      have rest: "forLoop bound body (Suc i) a1 s1 = (Inr r, s')" by simp
      have "P (Suc i) a1 s1"
        using "1.prems"(3) True "1.prems"(2) b' by blast
      then show ?thesis
        using "1.IH" [OF True b' [symmetric] refl rest _ "1.prems"(3)] by blast
    qed
  qed
qed

text \<open>
  A loop that returns has run its body at every index below the bound: the loop variables
  and the states it went through, from the first index to the one it stopped at.
\<close>

lemma forLoop_trace:
  assumes "forLoop bound body i a s = (Inr r, s')"
  shows "\<exists>f g N. f i = a \<and> g i = s \<and> f N = r \<and> g N = s' \<and> i \<le> N \<and> \<not> int N < bound
           \<and> (\<forall>j. i \<le> j \<and> j < N \<longrightarrow>
                  int j < bound \<and> body j (f j) (g j) = (Inr (f (Suc j)), g (Suc j)))"
  using assms
proof (induction bound body i a s rule: forLoop.induct)
  case (1 bound body i a s)
  show ?case
  proof (cases "int i < bound")
    case False
    from forLoop_exit [of i bound body a s, OF False] "1.prems" have "r = a" "s' = s"
      by simp_all
    with False show ?thesis
      by (intro exI [of _ "\<lambda>_. a"] exI [of _ "\<lambda>_. s"] exI [of _ i]) auto
  next
    case True
    obtain x s1 where b: "body i a s = (x, s1)" by (cases "body i a s")
    show ?thesis
    proof (cases x)
      case (Inl e)
      with forLoop_step_Inl [of i bound body a s e s1, OF True] b "1.prems" show ?thesis
        by simp
    next
      case (Inr a1)
      with b have b': "body i a s = (Inr a1, s1)" by simp
      from forLoop_step_Inr [of i bound body a s a1 s1, OF True b'] "1.prems"
      have rest: "forLoop bound body (Suc i) a1 s1 = (Inr r, s')" by simp
      from "1.IH" [OF True b' [symmetric] refl rest]
      obtain f g N where fg: "f (Suc i) = a1" "g (Suc i) = s1" "f N = r" "g N = s'"
        "Suc i \<le> N" "\<not> int N < bound"
        and tr: "\<forall>j. Suc i \<le> j \<and> j < N \<longrightarrow>
                  int j < bound \<and> body j (f j) (g j) = (Inr (f (Suc j)), g (Suc j))"
        by blast
      let ?f = "f(i := a)" and ?g = "g(i := s)"
      have "\<forall>j. i \<le> j \<and> j < N \<longrightarrow>
              int j < bound \<and> body j (?f j) (?g j) = (Inr (?f (Suc j)), ?g (Suc j))"
      proof (intro allI impI)
        fix j
        assume j: "i \<le> j \<and> j < N"
        show "int j < bound \<and> body j (?f j) (?g j) = (Inr (?f (Suc j)), ?g (Suc j))"
        proof (cases "j = i")
          case True
          with \<open>int i < bound\<close> b' fg show ?thesis by simp
        next
          case False
          with j have "Suc i \<le> j \<and> j < N" by simp
          with tr False j show ?thesis by simp
        qed
      qed
      moreover from fg have "?f i = a" "?g i = s" "?f N = r" "?g N = s'" "i \<le> N"
        by simp_all
      ultimately show ?thesis using fg(6) by blast
    qed
  qed
qed

section \<open>What an action leaves unchanged\<close>

lemma frameD: "frame m \<Longrightarrow> m s = (r, s') \<Longrightarrow> self s' = self s \<and> heap s' = heap s"
  by (auto simp: frame_def dest: spec [of _ s])

lemma frame_liftE: "frame (liftE r)"
  by (simp add: frame_def liftE_def)

lemma frame_param: "frame (param fld)"
  by (simp add: frame_def param_def)

lemma frame_bindS:
  assumes "frame m" and "\<And>a. frame (f a)"
  shows "frame (bindS m f)"
  unfolding frame_def
proof
  fix s
  obtain r s1 where m: "m s = (r, s1)" by (cases "m s")
  have f1: "self s1 = self s \<and> heap s1 = heap s"
    using frameD [OF assms(1) m] .
  show "self (snd (bindS m f s)) = self s \<and> heap (snd (bindS m f s)) = heap s"
  proof (cases r)
    case (Inl e)
    with m f1 show ?thesis by (simp add: bindS_def)
  next
    case (Inr a)
    obtain r2 s2 where f2: "f a s1 = (r2, s2)" by (cases "f a s1")
    from frameD [OF assms(2) f2] f1 m Inr f2 show ?thesis by (simp add: bindS_def)
  qed
qed

lemma frame_forLoop_aux:
  "\<forall>j x. frame (body j x) \<Longrightarrow>
   self (snd (forLoop bound body i a s)) = self s \<and> heap (snd (forLoop bound body i a s)) = heap s"
proof (induction bound body i a s rule: forLoop.induct)
  case (1 bound body i a s)
  show ?case
  proof (cases "int i < bound")
    case False
    then show ?thesis by (simp add: forLoop_exit)
  next
    case True
    obtain r s1 where b: "body i a s = (r, s1)" by (cases "body i a s")
    from "1.prems" have "frame (body i a)" by blast
    from frameD [OF this b] have f: "self s1 = self s \<and> heap s1 = heap s" .
    show ?thesis
    proof (cases r)
      case (Inl e)
      with b have "forLoop bound body i a s = (Inl e, s1)"
        using forLoop_step_Inl [of i bound body a s e s1, OF True] by simp
      with f show ?thesis by simp
    next
      case (Inr a1)
      with b have b': "body i a s = (Inr a1, s1)" by simp
      have "forLoop bound body i a s = forLoop bound body (Suc i) a1 s1"
        using forLoop_step_Inr [of i bound body a s a1 s1, OF True b'] .
      moreover have "self (snd (forLoop bound body (Suc i) a1 s1)) = self s1
          \<and> heap (snd (forLoop bound body (Suc i) a1 s1)) = heap s1"
        using "1.IH" [OF True b' [symmetric] refl "1.prems"] .
      ultimately show ?thesis using f by simp
    qed
  qed
qed

lemma frame_forLoop: "(\<And>j x. frame (body j x)) \<Longrightarrow> frame (forLoop bound body i a)"
  using frame_forLoop_aux [of body] by (simp add: frame_def)

lemma frame_zerosFor: "frame (zerosFor lib bias)"
  unfolding zerosFor_def by (intro frame_bindS frame_param frame_liftE)

lemma frame_logitsOf: "frame (logitsOf lib h)"
  unfolding logitsOf_def
  by (cases "elemAt h 1") (auto intro!: frame_bindS frame_param frame_liftE)

lemma frame_multinomialBranch: "frame (multinomialBranch lib t logits)"
  unfolding multinomialBranch_def
  by (intro frame_bindS frame_liftE) (simp add: frame_def split: prod.splits)

lemma frame_sampledOutput: "frame (sampledOutput lib temperature logits)"
  unfolding sampledOutput_def
  by (auto intro: frame_liftE frame_multinomialBranch split: option.splits)

lemma frame_nextInputOf: "frame (nextInputOf lib inputs n outputSize temperature i h samples)"
  unfolding nextInputOf_def
  by (auto intro!: frame_bindS frame_liftE frame_logitsOf frame_sampledOutput)

lemma frame_recurrentStep: "frame (recurrentStep lib fb x c h)"
  by (simp add: frame_def recurrentStep_def)

lemma frame_loopBody: "frame (loopBody lib inputs n outputSize temperature fb i vars)"
  unfolding loopBody_def
  by (cases vars) (auto intro!: frame_bindS frame_liftE frame_nextInputOf frame_recurrentStep)

lemma frame_continueSequence: "frame (continueSequence lib sequence steps temperature)"
  unfolding continueSequence_def Let_def
  by (auto intro!: frame_bindS frame_liftE frame_zerosFor frame_forLoop frame_loopBody)

section \<open>Where samples are appended\<close>

lemma nextInputOf_samples:
  assumes "nextInputOf lib inputs n outputSize temperature i h samples s = (Inr (x, samples'), s')"
  shows "(i < n \<longrightarrow> samples' = samples) \<and> (\<not> i < n \<longrightarrow> (\<exists>sc. samples' = samples @ [sc]))"
proof (cases "i < n")
  case True
  with assms show ?thesis
    by (auto simp: nextInputOf_def liftE_eq bindE_Inr)
next
  case False
  with assms show ?thesis
    by (auto simp: nextInputOf_def bindS_Inr liftE_eq bindE_Inr)
qed


lemma collect_length:
  "collect lib samples acc = Inr outputs \<Longrightarrow> length outputs = length acc + length samples"
  by (induction samples arbitrary: acc) (auto simp: bindE_Inr)


text \<open>The second loop reads the samples in order.\<close>

lemma collect_nth_aux:
  "collect lib samples acc = Inr outputs \<Longrightarrow>
   take (length acc) outputs = acc
   \<and> (\<forall>k < length samples. dl_scalarData lib (samples ! k) = Inr (outputs ! (length acc + k)))"
proof (induction samples arbitrary: acc)
  case Nil
  then show ?case by simp
next
  case (Cons sc rest)
  from Cons.prems obtain v where v: "dl_scalarData lib sc = Inr v"
    and r: "collect lib rest (acc @ [v]) = Inr outputs"
    by (auto simp: bindE_Inr)
  from Cons.IH [OF r] have t: "take (Suc (length acc)) outputs = acc @ [v]"
    and n: "\<forall>k < length rest. dl_scalarData lib (rest ! k) = Inr (outputs ! (Suc (length acc) + k))"
    by simp_all
  from collect_length [OF r] have len: "length acc < length outputs" by simp
  from t len have a: "take (length acc) outputs = acc" and b: "outputs ! length acc = v"
    by (simp_all add: take_Suc_conv_app_nth)
  have "dl_scalarData lib ((sc # rest) ! k) = Inr (outputs ! (length acc + k))"
    if "k < length (sc # rest)" for k
  proof (cases k)
    case 0
    with v b show ?thesis by simp
  next
    case (Suc m)
    with that n show ?thesis by simp
  qed
  with a show ?case by blast
qed

lemma collect_nth:
  assumes "collect lib samples [] = Inr outputs"
  shows "length outputs = length samples"
    and "k < length samples \<Longrightarrow> dl_scalarData lib (samples ! k) = Inr (outputs ! k)"
  using collect_length [OF assms] collect_nth_aux [OF assms] by simp_all

text \<open>What a loop step that returns has called.\<close>

lemma loopBody_Inr:
  assumes "loopBody lib inputs n outputSize temperature fb i (c, h, samples) s
           = (Inr (c', h', samples'), s')"
  shows "\<exists>x s1. nextInputOf lib inputs n outputSize temperature i h samples s
                   = (Inr (x, samples'), s1)
               \<and> recurrentStep lib fb x c h s1 = (Inr (c', h'), s')"
  using assms by (auto simp: loopBody_def bindS_Inr liftE_eq)

lemma nextInputOf_teacher:
  assumes "nextInputOf lib inputs n outputSize temperature i h samples s = (Inr (x, samples'), s')"
    and "i < n"
  shows "\<exists>sl. dl_slice lib inputs [i, 0] [1, outputSize] = Inr sl
             \<and> dl_as2D lib sl 1 outputSize = Inr x \<and> samples' = samples \<and> s' = s"
  using assms by (auto simp: nextInputOf_def liftE_eq bindE_Inr)

lemma nextInputOf_sample:
  assumes "nextInputOf lib inputs n outputSize temperature i h samples s = (Inr (x, samples'), s')"
    and "\<not> i < n"
  shows "\<exists>h1 w m b lg a oh sc.
           elemAt h 1 = Some h1 \<and> deref s (lstmFcW (self s)) = Inr w \<and> dl_matMul lib h1 w = Inr m
         \<and> deref s (lstmFcB (self s)) = Inr b \<and> dl_add lib m b = Inr lg
         \<and> sampledOutput lib temperature lg s = (Inr a, s')
         \<and> dl_oneHot lib a outputSize = Inr oh \<and> dl_toFloat lib oh = Inr x
         \<and> dl_asScalar lib a = Inr sc \<and> samples' = samples @ [sc]"
proof -
  from assms obtain lg s1 a where
    lg: "logitsOf lib h s = (Inr lg, s1)" and so: "sampledOutput lib temperature lg s1 = (Inr a, s')"
    and rest: "\<exists>oh sc. dl_oneHot lib a outputSize = Inr oh \<and> dl_toFloat lib oh = Inr x
         \<and> dl_asScalar lib a = Inr sc \<and> samples' = samples @ [sc]"
    by (auto simp: nextInputOf_def bindS_Inr liftE_eq bindE_Inr)
  from lg obtain h1 w m b where "elemAt h 1 = Some h1" "deref s (lstmFcW (self s)) = Inr w"
    "dl_matMul lib h1 w = Inr m" "deref s (lstmFcB (self s)) = Inr b" "dl_add lib m b = Inr lg"
    "s1 = s"
    by (auto simp: logitsOf_def bindS_Inr liftE_eq param_def split: option.splits)
  with so rest show ?thesis by blast
qed

section \<open>What continueSequence asks of the collaborators\<close>

lemma sampledOutput_falsy:
  "falsy temperature \<Longrightarrow> sampledOutput lib temperature logits = liftE (argMaxBranch lib logits)"
  by (auto simp: falsy_def sampledOutput_def split: option.splits)

lemma collect_cong:
  "dl_scalarData lib1 = dl_scalarData lib2 \<Longrightarrow> collect lib1 xs acc = collect lib2 xs acc"
  by (induction xs arbitrary: acc) (simp_all add: bindE_def)

lemma loopBody_cong:
  assumes "dl_slice l1 = dl_slice l2" "dl_as2D l1 = dl_as2D l2" "dl_matMul l1 = dl_matMul l2"
    "dl_add l1 = dl_add l2" "dl_oneHot l1 = dl_oneHot l2" "dl_toFloat l1 = dl_toFloat l2"
    "dl_asScalar l1 = dl_asScalar l2" "dl_multiRNNCell l1 = dl_multiRNNCell l2"
    "dl_basicLSTMCell l1 fb = dl_basicLSTMCell l2 fb"
    "sampledOutput l1 temperature = sampledOutput l2 temperature"
  shows "loopBody l1 inputs n outputSize temperature fb
         = loopBody l2 inputs n outputSize temperature fb"
proof -
  have l: "logitsOf l1 h = logitsOf l2 h" for h
    using assms(3,4) by (simp add: logitsOf_def cong: option.case_cong)
  have ni: "nextInputOf l1 inputs n outputSize temperature i h samples
            = nextInputOf l2 inputs n outputSize temperature i h samples" for i h samples
    using assms(1,2,5,6,7,10) by (simp add: nextInputOf_def l)
  have c: "lstm1 l1 fb s = lstm1 l2 fb s" "lstm2 l1 fb s = lstm2 l2 fb s" for s
    using assms(9) by (intro ext, simp add: lstm1_def lstm2_def)+
  have rs: "recurrentStep l1 fb x c h = recurrentStep l2 fb x c h" for x c h
    using assms(8) by (intro ext) (simp add: recurrentStep_def c)
  show ?thesis
    by (intro ext) (simp add: loopBody_def ni rs)
qed

text \<open>
  Two libraries that agree on the operations continueSequence calls, at the arguments
  it calls them with, give the same outcome.
\<close>

lemma continueSequence_cong:
  assumes "dl_slice l1 = dl_slice l2" "dl_as2D l1 = dl_as2D l2" "dl_matMul l1 = dl_matMul l2"
    "dl_add l1 = dl_add l2" "dl_oneHot l1 = dl_oneHot l2" "dl_toFloat l1 = dl_toFloat l2"
    "dl_asScalar l1 = dl_asScalar l2" "dl_multiRNNCell l1 = dl_multiRNNCell l2"
    "\<forall>fb. dl_scalar l2 (Num 1) = Inr fb \<longrightarrow> dl_basicLSTMCell l1 fb = dl_basicLSTMCell l2 fb"
    "sampledOutput l1 temperature = sampledOutput l2 temperature"
    "dl_toTensor l1 \<lparr> numSteps = totalQuantizedSteps sequence, minPitch = 48, maxPitch = 84 \<rparr> sequence
     = dl_toTensor l2 \<lparr> numSteps = totalQuantizedSteps sequence, minPitch = 48, maxPitch = 84 \<rparr> sequence"
    "dl_scalar l1 (Num 1) = dl_scalar l2 (Num 1)" "dl_shape1D l1 = dl_shape1D l2"
    "dl_shape2D l1 = dl_shape2D l2" "dl_zeros l1 = dl_zeros l2"
    "dl_scalarData l1 = dl_scalarData l2"
  shows "continueSequence l1 sequence steps temperature s
         = continueSequence l2 sequence steps temperature s"
proof (cases "dl_toTensor l2 \<lparr> numSteps = totalQuantizedSteps sequence, minPitch = 48, maxPitch = 84 \<rparr> sequence")
  case (Inl e)
  with assms(11) show ?thesis
    by (simp add: continueSequence_def DEFAULT_MIN_NOTE_def DEFAULT_MAX_NOTE_def bindS_def liftE_def)
next
  case tt: (Inr inputs)
  show ?thesis
  proof (cases "dl_scalar l2 (Num 1)")
    case (Inl e)
    with tt assms(11,12) show ?thesis
      by (simp add: continueSequence_def DEFAULT_MIN_NOTE_def DEFAULT_MAX_NOTE_def bindS_def liftE_def)
  next
    case (Inr fb)
    with assms(9) have cell: "dl_basicLSTMCell l1 fb = dl_basicLSTMCell l2 fb" by blast
    have b: "loopBody l1 inputs n outputSize temperature fb
           = loopBody l2 inputs n outputSize temperature fb" for n outputSize
      by (rule loopBody_cong [OF assms(1-8) cell assms(10)])
    have c: "collect l1 xs acc = collect l2 xs acc" for xs acc
      by (rule collect_cong [OF assms(16)])
    have z: "zerosFor l1 f = zerosFor l2 f" for f
      using assms(13,15) by (simp add: zerosFor_def)
    from tt Inr assms(11,12,14) show ?thesis
      by (simp add: continueSequence_def DEFAULT_MIN_NOTE_def DEFAULT_MAX_NOTE_def bindS_def
          liftE_def b c z)
  qed
qed

text \<open>On the arg-max path neither the division nor the multinomial draw is called.\<close>

lemma falsy_ignores_sampling:
  assumes "falsy temperature"
  shows "continueSequence (lib\<lparr>dl_div := d, dl_multinomial := mn\<rparr>) sequence steps temperature s
         = continueSequence lib sequence steps temperature s"
  by (rule continueSequence_cong)
     (simp_all add: sampledOutput_falsy [OF assms] argMaxBranch_def fun_eq_iff)

text \<open>On the stochastic path arg-max is not called.\<close>

lemma truthy_ignores_argMax:
  assumes "toBoolean t"
  shows "continueSequence (lib\<lparr>dl_argMax := am\<rparr>) sequence steps (Some t) s
         = continueSequence lib sequence steps (Some t) s"
  using assms
  by (intro continueSequence_cong)
     (simp_all add: sampledOutput_def multinomialBranch_def fun_eq_iff)

section \<open>Runs that do not touch the random generator\<close>

lemma pureReadD:
  assumes "pureRead m"
  shows "m s = (fst (m s), s)"
proof -
  from assms have "m (s\<lparr>rng := rng s\<rparr>) = (fst (m s), s\<lparr>rng := rng s\<rparr>)"
    unfolding pureRead_def by blast
  then show ?thesis by simp
qed

lemma pureReadD2: "pureRead m \<Longrightarrow> m (s\<lparr>rng := g\<rparr>) = (fst (m s), s\<lparr>rng := g\<rparr>)"
  by (simp add: pureRead_def)

lemma deref_rng [simp]: "deref (s\<lparr>rng := g\<rparr>) f = deref s f"
  by (simp add: deref_def cong: option.case_cong)

lemma pureRead_liftE: "pureRead (liftE r)"
  by (simp add: pureRead_def liftE_def)

lemma pureRead_param: "pureRead (param fld)"
  by (simp add: pureRead_def param_def)

lemma pureRead_bindS:
  assumes "pureRead m" and "\<And>a. pureRead (f a)"
  shows "pureRead (bindS m f)"
  unfolding pureRead_def
proof (intro allI)
  fix s g
  have m1: "m s = (fst (m s), s)" and m2: "m (s\<lparr>rng := g\<rparr>) = (fst (m s), s\<lparr>rng := g\<rparr>)"
    using pureReadD [OF assms(1)] pureReadD2 [OF assms(1)] by auto
  show "bindS m f (s\<lparr>rng := g\<rparr>) = (fst (bindS m f s), s\<lparr>rng := g\<rparr>)"
  proof (cases "fst (m s)")
    case (Inl e)
    with m1 m2 show ?thesis by (simp add: bindS_def)
  next
    case (Inr a)
    have "bindS m f (s\<lparr>rng := g\<rparr>) = f a (s\<lparr>rng := g\<rparr>)"
      using m2 Inr by (simp add: bindS_def)
    moreover have "bindS m f s = f a s"
      using m1 Inr by (simp add: bindS_def split: prod.splits)
    ultimately show ?thesis
      using pureReadD2 [OF assms(2) [of a], where s = s and g = g] by simp
  qed
qed

lemma pureRead_forLoop_aux:
  "\<forall>j x. pureRead (body j x) \<Longrightarrow>
   forLoop bound body i a (s\<lparr>rng := g\<rparr>) = (fst (forLoop bound body i a s), s\<lparr>rng := g\<rparr>)"
proof (induction bound body i a s rule: forLoop.induct)
  case (1 bound body i a s)
  show ?case
  proof (cases "int i < bound")
    case False
    then show ?thesis by (simp add: forLoop_exit)
  next
    case True
    from "1.prems" have pr: "pureRead (body i a)" by blast
    have b1: "body i a s = (fst (body i a s), s)"
      and b2: "body i a (s\<lparr>rng := g\<rparr>) = (fst (body i a s), s\<lparr>rng := g\<rparr>)"
      using pureReadD [OF pr] pureReadD2 [OF pr] by auto
    show ?thesis
    proof (cases "fst (body i a s)")
      case (Inl e)
      have "forLoop bound body i a s = (Inl e, s)"
        using forLoop_step_Inl [of i bound body a s e s, OF True] b1 Inl by simp
      moreover have "forLoop bound body i a (s\<lparr>rng := g\<rparr>) = (Inl e, s\<lparr>rng := g\<rparr>)"
        using forLoop_step_Inl [of i bound body a "s\<lparr>rng := g\<rparr>" e "s\<lparr>rng := g\<rparr>", OF True]
          b2 Inl
        by simp
      ultimately show ?thesis by simp
    next
      case (Inr a1)
      have s1: "body i a s = (Inr a1, s)" using b1 Inr by simp
      have n1: "forLoop bound body i a s = forLoop bound body (Suc i) a1 s"
        using forLoop_step_Inr [of i bound body a s a1 s, OF True s1] .
      have n2: "forLoop bound body i a (s\<lparr>rng := g\<rparr>)
                = forLoop bound body (Suc i) a1 (s\<lparr>rng := g\<rparr>)"
        using forLoop_step_Inr [of i bound body a "s\<lparr>rng := g\<rparr>" a1 "s\<lparr>rng := g\<rparr>", OF True]
          b2 Inr
        by simp
      show ?thesis
        using "1.IH" [OF True s1 [symmetric] refl "1.prems"] n1 n2 by simp
    qed
  qed
qed

lemma pureRead_forLoop: "(\<And>j x. pureRead (body j x)) \<Longrightarrow> pureRead (forLoop bound body i a)"
  using pureRead_forLoop_aux [of body] by (simp add: pureRead_def)

lemma pureRead_zerosFor: "pureRead (zerosFor lib bias)"
  unfolding zerosFor_def by (intro pureRead_bindS pureRead_param pureRead_liftE)

lemma pureRead_logitsOf: "pureRead (logitsOf lib h)"
  unfolding logitsOf_def
  by (cases "elemAt h 1") (auto intro!: pureRead_bindS pureRead_param pureRead_liftE)

lemma pureRead_nextInputOf:
  "falsy temperature \<Longrightarrow> pureRead (nextInputOf lib inputs n outputSize temperature i h samples)"
  unfolding nextInputOf_def
  by (auto intro!: pureRead_bindS pureRead_liftE pureRead_logitsOf simp: sampledOutput_falsy)

lemma pureRead_recurrentStep: "pureRead (recurrentStep lib fb x c h)"
proof -
  have "lstm1 lib fb (s\<lparr>rng := g\<rparr>) = lstm1 lib fb s" "lstm2 lib fb (s\<lparr>rng := g\<rparr>) = lstm2 lib fb s"
    for s :: "('a, 'b) state" and g
    by (intro ext, simp add: lstm1_def lstm2_def)+
  then show ?thesis by (simp add: pureRead_def recurrentStep_def)
qed

lemma pureRead_loopBody:
  "falsy temperature \<Longrightarrow> pureRead (loopBody lib inputs n outputSize temperature fb i vars)"
  unfolding loopBody_def
  by (cases vars)
     (auto intro!: pureRead_bindS pureRead_liftE pureRead_nextInputOf pureRead_recurrentStep)

lemma pureRead_continueSequence:
  "falsy temperature \<Longrightarrow> pureRead (continueSequence lib sequence steps temperature)"
  unfolding continueSequence_def Let_def
  by (auto intro!: pureRead_bindS pureRead_liftE pureRead_zerosFor pureRead_forLoop
      pureRead_loopBody)

section \<open>The range of the samples\<close>



lemma multinomialBranch_Inr:
  assumes "multinomialBranch lib x l t = (Inr a, t')"
  shows "\<exists>tmp scaled r g'. dl_scalar lib x = Inr tmp \<and> dl_div lib l tmp = Inr scaled
           \<and> dl_multinomial lib scaled 1 (rng t) = (Inr r, g') \<and> dl_as1D lib r = Inr a"
proof -
  from assms obtain tmp scaled m t2 where
    1: "dl_scalar lib x = Inr tmp" and 2: "dl_div lib l tmp = Inr scaled"
    and 3: "(case dl_multinomial lib scaled 1 (rng t) of (r, g') \<Rightarrow> (r, t\<lparr>rng := g'\<rparr>)) = (Inr m, t2)"
    and 4: "dl_as1D lib m = Inr a"
    by (auto simp: multinomialBranch_def bindS_Inr liftE_eq)
  obtain r g' where 5: "dl_multinomial lib scaled 1 (rng t) = (r, g')"
    by (cases "dl_multinomial lib scaled 1 (rng t)")
  with 3 have "r = Inr m" by simp
  with 1 2 4 5 show ?thesis by blast
qed




section \<open>What a run that returns has done\<close>

lemma deref_frame: "self t = self s \<Longrightarrow> heap t = heap s \<Longrightarrow> deref t (f (self t)) = deref s (f (self s))"
  by (simp add: deref_def cong: option.case_cong)

lemma toTensor_error_first:
  assumes "dl_toTensor lib \<lparr> numSteps = totalQuantizedSteps sequence, minPitch = 48, maxPitch = 84 \<rparr>
             sequence = Inl e"
  shows "continueSequence lib sequence steps temperature s = (Inl e, s)"
  using assms
  by (simp add: continueSequence_def DEFAULT_MIN_NOTE_def DEFAULT_MAX_NOTE_def bindS_def liftE_def)

text \<open>
  continueSequence examines the melody nowhere but in the call of the converter: two
  melodies that the converter encodes alike are continued alike.
\<close>

lemma melody_only_through_converter:
  assumes "dl_toTensor lib \<lparr> numSteps = totalQuantizedSteps sq1, minPitch = 48, maxPitch = 84 \<rparr> sq1
           = dl_toTensor lib \<lparr> numSteps = totalQuantizedSteps sq2, minPitch = 48, maxPitch = 84 \<rparr> sq2"
  shows "continueSequence lib sq1 steps temperature s = continueSequence lib sq2 steps temperature s"
  using assms by (simp add: continueSequence_def DEFAULT_MIN_NOTE_def DEFAULT_MAX_NOTE_def)

lemma continueSequence_Inr:
  assumes "continueSequence lib sequence steps temperature s = (Inr outputs, s')"
  shows "\<exists>inputs fb c0 c1 h0 h1 c h samples s1.
           dl_toTensor lib \<lparr> numSteps = totalQuantizedSteps sequence, minPitch = 48, maxPitch = 84 \<rparr>
             sequence = Inr inputs
         \<and> dl_scalar lib (Num 1) = Inr fb
         \<and> self s1 = self s \<and> heap s1 = heap s
         \<and> forLoop (int (fst (dl_shape2D lib inputs)) + steps)
             (loopBody lib inputs (fst (dl_shape2D lib inputs)) (snd (dl_shape2D lib inputs))
                temperature fb) 0 ([c0, c1], [h0, h1], []) s1 = (Inr (c, h, samples), s')
         \<and> collect lib samples [] = Inr outputs"
proof -
  from assms obtain inputs fb c0 c1 h0 h1 c h samples s1 where
    tt: "dl_toTensor lib \<lparr> numSteps = totalQuantizedSteps sequence, minPitch = 48, maxPitch = 84 \<rparr>
             sequence = Inr inputs"
    and fb: "dl_scalar lib (Num 1) = Inr fb"
    and z: "bindS (zerosFor lib lstmBias1) (\<lambda>c0. bindS (zerosFor lib lstmBias2) (\<lambda>c1.
          bindS (zerosFor lib lstmBias1) (\<lambda>h0. bindS (zerosFor lib lstmBias2) (\<lambda>h1.
          liftE (Inr (c0, c1, h0, h1)))))) s = (Inr (c0, c1, h0, h1), s1)"
    and loop: "forLoop (int (fst (dl_shape2D lib inputs)) + steps)
             (loopBody lib inputs (fst (dl_shape2D lib inputs)) (snd (dl_shape2D lib inputs))
                temperature fb) 0 ([c0, c1], [h0, h1], []) s1 = (Inr (c, h, samples), s')"
    and col: "collect lib samples [] = Inr outputs"
    by (auto simp: continueSequence_def Let_def bindS_Inr liftE_eq DEFAULT_MIN_NOTE_def
        DEFAULT_MAX_NOTE_def)
  have "frame (bindS (zerosFor lib lstmBias1) (\<lambda>c0. bindS (zerosFor lib lstmBias2) (\<lambda>c1.
          bindS (zerosFor lib lstmBias1) (\<lambda>h0. bindS (zerosFor lib lstmBias2) (\<lambda>h1.
          liftE (Inr (c0, c1, h0, h1)))))))"
    by (intro frame_bindS frame_zerosFor frame_liftE)
  from frameD [OF this z] have "self s1 = self s" "heap s1 = heap s" by simp_all
  with tt fb loop col show ?thesis by blast
qed

text \<open>
  What holds of every sample when it is appended holds of the tensor behind every
  output.
\<close>

lemma run_samples:
  assumes run: "continueSequence lib sequence steps temperature s = (Inr outputs, s')"
    and step: "\<And>inputs n outputSize fb i h samples t x samples' t'.
        self t = self s \<Longrightarrow> heap t = heap s \<Longrightarrow> \<not> i < n \<Longrightarrow>
        nextInputOf lib inputs n outputSize temperature i h samples t = (Inr (x, samples'), t') \<Longrightarrow>
        \<exists>sc. samples' = samples @ [sc] \<and> Q sc"
    and k: "k < length outputs"
  shows "\<exists>sc. Q sc \<and> dl_scalarData lib sc = Inr (outputs ! k)"
proof -
  from continueSequence_Inr [OF run] obtain inputs fb c0 c1 h0 h1 c h samples s1 where
    s1: "self s1 = self s" "heap s1 = heap s"
    and loop: "forLoop (int (fst (dl_shape2D lib inputs)) + steps)
             (loopBody lib inputs (fst (dl_shape2D lib inputs)) (snd (dl_shape2D lib inputs))
                temperature fb) 0 ([c0, c1], [h0, h1], []) s1 = (Inr (c, h, samples), s')"
    and col: "collect lib samples [] = Inr outputs"
    by blast
  let ?len = "fst (dl_shape2D lib inputs)" and ?n = "snd (dl_shape2D lib inputs)"
  let ?P = "\<lambda>(j::nat) (v :: 'a list \<times> 'a list \<times> 'a list) (t :: ('a, 'b) state).
              (\<forall>sc \<in> set (snd (snd v)). Q sc) \<and> self t = self s \<and> heap t = heap s"
  have inv: "\<forall>j x t x' t'. int j < int ?len + steps \<longrightarrow> ?P j x t \<longrightarrow>
      loopBody lib inputs ?len ?n temperature fb j x t = (Inr x', t') \<longrightarrow> ?P (Suc j) x' t'"
  proof (intro allI impI)
    fix j x t x' t'
    assume p: "?P j x t"
      and b: "loopBody lib inputs ?len ?n temperature fb j x t = (Inr x', t')"
    obtain c1 h1 m1 where x: "x = (c1, h1, m1)" by (cases x)
    obtain c2 h2 m2 where x': "x' = (c2, h2, m2)" by (cases x')
    from frameD [OF frame_loopBody b] p have fr: "self t' = self s" "heap t' = heap s"
      by simp_all
    from loopBody_Inr [OF b [unfolded x x']] obtain y t1 where
      ni: "nextInputOf lib inputs ?len ?n temperature j h1 m1 t = (Inr (y, m2), t1)"
      by blast
    have "\<forall>sc \<in> set m2. Q sc"
    proof (cases "j < ?len")
      case True
      with nextInputOf_samples [OF ni] p x show ?thesis by simp
    next
      case False
      from step [OF _ _ False ni] p obtain sc where "m2 = m1 @ [sc]" "Q sc" by auto
      with p x show ?thesis by simp
    qed
    with fr x' show "?P (Suc j) x' t'" by simp
  qed
  from forLoop_rule [where P = ?P, OF loop _ inv] s1
  have all: "\<forall>sc \<in> set samples. Q sc" by auto
  from collect_nth [OF col] k have "k < length samples"
    "dl_scalarData lib (samples ! k) = Inr (outputs ! k)" by simp_all
  with all show ?thesis by (auto intro!: exI [of _ "samples ! k"])
qed

lemma sampledOutput_argMax:
  "falsy temperature \<Longrightarrow>
   sampledOutput lib temperature logits s
   = (case dl_argMax lib logits 1 of Inl e \<Rightarrow> Inl e | Inr am \<Rightarrow> dl_as1D lib am, s)"
  by (simp add: sampledOutput_falsy liftE_def argMaxBranch_def bindE_def)

lemma sampledOutput_multinomial:
  "toBoolean t \<Longrightarrow>
   sampledOutput lib (Some t) logits s
   = (case dl_scalar lib t of
        Inl e \<Rightarrow> (Inl e, s)
      | Inr temp \<Rightarrow>
          (case dl_div lib logits temp of
             Inl e \<Rightarrow> (Inl e, s)
           | Inr scaled \<Rightarrow>
               (case dl_multinomial lib scaled 1 (rng s) of
                  (Inl e, g') \<Rightarrow> (Inl e, s\<lparr>rng := g'\<rparr>)
                | (Inr r, g') \<Rightarrow> (dl_as1D lib r, s\<lparr>rng := g'\<rparr>))))"
  by (simp add: sampledOutput_def multinomialBranch_def bindS_def liftE_def
      split: sum.splits prod.splits)

lemma argMax_outputs:
  assumes "falsy temperature"
    and "continueSequence lib sequence steps temperature s = (Inr outputs, s')"
    and "k < length outputs"
  shows "\<exists>h1 w m b logits am a sc.
           deref s (lstmFcW (self s)) = Inr w \<and> dl_matMul lib h1 w = Inr m
         \<and> deref s (lstmFcB (self s)) = Inr b \<and> dl_add lib m b = Inr logits
         \<and> dl_argMax lib logits 1 = Inr am \<and> dl_as1D lib am = Inr a
         \<and> dl_asScalar lib a = Inr sc \<and> dl_scalarData lib sc = Inr (outputs ! k)"
proof -
  let ?Q = "\<lambda>sc. \<exists>h1 w m b logits am a.
           deref s (lstmFcW (self s)) = Inr w \<and> dl_matMul lib h1 w = Inr m
         \<and> deref s (lstmFcB (self s)) = Inr b \<and> dl_add lib m b = Inr logits
         \<and> dl_argMax lib logits 1 = Inr am \<and> dl_as1D lib am = Inr a
         \<and> dl_asScalar lib a = Inr sc"
  have "\<exists>sc. ?Q sc \<and> dl_scalarData lib sc = Inr (outputs ! k)"
  proof (rule run_samples [OF assms(2) _ assms(3), where Q = ?Q])
    fix inputs n outputSize fb i h samples t x samples' t'
    assume fr: "self t = self s" "heap t = heap s" and i: "\<not> i < n"
      and ni: "nextInputOf lib inputs n outputSize temperature i h samples t
               = (Inr (x, samples'), t')"
    from nextInputOf_sample [OF ni i] obtain h1 w m b lg a sc where
      w: "deref t (lstmFcW (self t)) = Inr w" and m: "dl_matMul lib h1 w = Inr m"
      and b: "deref t (lstmFcB (self t)) = Inr b" and lg: "dl_add lib m b = Inr lg"
      and so: "sampledOutput lib temperature lg t = (Inr a, t')"
      and sc: "dl_asScalar lib a = Inr sc" and s': "samples' = samples @ [sc]"
      by blast
    from so obtain am where "dl_argMax lib lg 1 = Inr am" "dl_as1D lib am = Inr a"
      by (auto simp: sampledOutput_argMax [OF assms(1)] split: sum.splits)
    with w m b lg sc deref_frame [OF fr] have "?Q sc" by metis
    with s' show "\<exists>sc. samples' = samples @ [sc] \<and> ?Q sc" by blast
  qed
  then show ?thesis by blast
qed

lemma multinomial_outputs:
  assumes "toBoolean t"
    and "continueSequence lib sequence steps (Some t) s = (Inr outputs, s')"
    and "k < length outputs"
  shows "\<exists>h1 w m b logits temp scaled g r g' a sc.
           deref s (lstmFcW (self s)) = Inr w \<and> dl_matMul lib h1 w = Inr m
         \<and> deref s (lstmFcB (self s)) = Inr b \<and> dl_add lib m b = Inr logits
         \<and> dl_scalar lib t = Inr temp \<and> dl_div lib logits temp = Inr scaled
         \<and> dl_multinomial lib scaled 1 g = (Inr r, g') \<and> dl_as1D lib r = Inr a
         \<and> dl_asScalar lib a = Inr sc \<and> dl_scalarData lib sc = Inr (outputs ! k)"
proof -
  let ?Q = "\<lambda>sc. \<exists>h1 w m b logits temp scaled g r g' a.
           deref s (lstmFcW (self s)) = Inr w \<and> dl_matMul lib h1 w = Inr m
         \<and> deref s (lstmFcB (self s)) = Inr b \<and> dl_add lib m b = Inr logits
         \<and> dl_scalar lib t = Inr temp \<and> dl_div lib logits temp = Inr scaled
         \<and> dl_multinomial lib scaled 1 g = (Inr r, g') \<and> dl_as1D lib r = Inr a
         \<and> dl_asScalar lib a = Inr sc"
  have "\<exists>sc. ?Q sc \<and> dl_scalarData lib sc = Inr (outputs ! k)"
  proof (rule run_samples [OF assms(2) _ assms(3), where Q = ?Q])
    fix inputs n outputSize fb i h samples u x samples' u'
    assume fr: "self u = self s" "heap u = heap s" and i: "\<not> i < n"
      and ni: "nextInputOf lib inputs n outputSize (Some t) i h samples u
               = (Inr (x, samples'), u')"
    from nextInputOf_sample [OF ni i] obtain h1 w m b lg a sc where
      w: "deref u (lstmFcW (self u)) = Inr w" and m: "dl_matMul lib h1 w = Inr m"
      and b: "deref u (lstmFcB (self u)) = Inr b" and lg: "dl_add lib m b = Inr lg"
      and so: "sampledOutput lib (Some t) lg u = (Inr a, u')"
      and sc: "dl_asScalar lib a = Inr sc" and s': "samples' = samples @ [sc]"
      by blast
    from so assms(1) have "multinomialBranch lib t lg u = (Inr a, u')"
      by (simp add: sampledOutput_def)
    from multinomialBranch_Inr [OF this] obtain temp scaled r g' where
      "dl_scalar lib t = Inr temp" "dl_div lib lg temp = Inr scaled"
      "dl_multinomial lib scaled 1 (rng u) = (Inr r, g')" "dl_as1D lib r = Inr a"
      by blast
    with w m b lg sc deref_frame [OF fr] have "?Q sc" by metis
    with s' show "\<exists>sc. samples' = samples @ [sc] \<and> ?Q sc" by blast
  qed
  then show ?thesis by blast
qed

text \<open>The cell of the tensor library, equation by equation.\<close>

lemma basicLSTMCell_Inr:
  "basicLSTMCell ops fb W b x c h = Inr (c', h') \<longleftrightarrow>
     (\<exists>xh weighted gates gi gj gf go biased keep kept gate cand written squashed out.
        co_concat ops x h = Inr xh \<and> co_matMul ops xh W = Inr weighted
      \<and> co_add ops weighted b = Inr gates \<and> co_split4 ops gates = Inr (gi, gj, gf, go)
      \<and> co_add ops gf fb = Inr biased \<and> co_sigmoid ops biased = Inr keep
      \<and> co_mul ops c keep = Inr kept
      \<and> co_sigmoid ops gi = Inr gate \<and> co_tanh ops gj = Inr cand
      \<and> co_mul ops gate cand = Inr written
      \<and> co_add ops kept written = Inr c'
      \<and> co_tanh ops c' = Inr squashed \<and> co_sigmoid ops go = Inr out
      \<and> co_mul ops squashed out = Inr h')"
  by (simp add: basicLSTMCell_def bindE_Inr) blast

lemma recurrentStep_two_layers:
  assumes "dl_basicLSTMCell lib = cell" and "dl_multiRNNCell lib = multiRNNCell"
    and "recurrentStep lib fb x [c1, c2] [h1, h2] s = (Inr (c', h'), s')"
  shows "\<exists>W1 b1 W2 b2 c1' h1' c2' h2'.
           deref s (lstmKernel1 (self s)) = Inr W1 \<and> deref s (lstmBias1 (self s)) = Inr b1
         \<and> deref s (lstmKernel2 (self s)) = Inr W2 \<and> deref s (lstmBias2 (self s)) = Inr b2
         \<and> cell fb W1 b1 x c1 h1 = Inr (c1', h1') \<and> cell fb W2 b2 h1' c2 h2 = Inr (c2', h2')
         \<and> c' = [c1', c2'] \<and> h' = [h1', h2'] \<and> s' = s"
  using assms
  by (auto simp: recurrentStep_def lstm1_def lstm2_def bindE_Inr)

lemma step_applies_cells:
  assumes cell: "dl_basicLSTMCell lib = cell" and stack: "dl_multiRNNCell lib = multiRNNCell"
    and fr: "self t = self s" "heap t = heap s"
    and v: "\<exists>a1 a2 e1 e2. fst v = [a1, a2] \<and> fst (snd v) = [e1, e2]"
    and b: "loopBody lib inputs n outputSize temperature fb j v t = (Inr v', t')"
  shows "\<exists>x1 W1 b1 W2 b2 c1 h1 c2 h2 c1' h1' c2' h2'.
           fst v = [c1, c2] \<and> fst (snd v) = [h1, h2]
         \<and> deref s (lstmKernel1 (self s)) = Inr W1 \<and> deref s (lstmBias1 (self s)) = Inr b1
         \<and> deref s (lstmKernel2 (self s)) = Inr W2 \<and> deref s (lstmBias2 (self s)) = Inr b2
         \<and> cell fb W1 b1 x1 c1 h1 = Inr (c1', h1') \<and> cell fb W2 b2 h1' c2 h2 = Inr (c2', h2')
         \<and> fst v' = [c1', c2'] \<and> fst (snd v') = [h1', h2']
         \<and> (if j < n
             then \<exists>sl. dl_slice lib inputs [j, 0] [1, outputSize] = Inr sl
                      \<and> dl_as2D lib sl 1 outputSize = Inr x1
             else \<exists>w m b lg u a oh.
                    deref s (lstmFcW (self s)) = Inr w \<and> dl_matMul lib h2 w = Inr m
                  \<and> deref s (lstmFcB (self s)) = Inr b \<and> dl_add lib m b = Inr lg
                  \<and> fst (sampledOutput lib temperature lg u) = Inr a
                  \<and> dl_oneHot lib a outputSize = Inr oh \<and> dl_toFloat lib oh = Inr x1)"
    and "self t' = self s \<and> heap t' = heap s
         \<and> (\<exists>a1 a2 e1 e2. fst v' = [a1, a2] \<and> fst (snd v') = [e1, e2])"
proof -
  from v obtain c1 c2 h1 h2 samples where v1: "v = ([c1, c2], [h1, h2], samples)"
    by (cases v) auto
  obtain c' h' samples' where v': "v' = (c', h', samples')" by (cases v')
  from loopBody_Inr [OF b [unfolded v1 v']] obtain x1 t1 where
    ni: "nextInputOf lib inputs n outputSize temperature j [h1, h2] samples t
         = (Inr (x1, samples'), t1)"
    and rs: "recurrentStep lib fb x1 [c1, c2] [h1, h2] t1 = (Inr (c', h'), t')"
    by blast
  from frameD [OF frame_nextInputOf ni] fr have fr1: "self t1 = self s" "heap t1 = heap s"
    by simp_all
  from recurrentStep_two_layers [OF cell stack rs] deref_frame [OF fr1]
  obtain W1 b1 W2 b2 c1' h1' c2' h2' where cells:
    "deref s (lstmKernel1 (self s)) = Inr W1" "deref s (lstmBias1 (self s)) = Inr b1"
    "deref s (lstmKernel2 (self s)) = Inr W2" "deref s (lstmBias2 (self s)) = Inr b2"
    "cell fb W1 b1 x1 c1 h1 = Inr (c1', h1')" "cell fb W2 b2 h1' c2 h2 = Inr (c2', h2')"
    and out: "c' = [c1', c2']" "h' = [h1', h2']" "t' = t1"
    by metis
  have origin: "if j < n
             then \<exists>sl. dl_slice lib inputs [j, 0] [1, outputSize] = Inr sl
                      \<and> dl_as2D lib sl 1 outputSize = Inr x1
             else \<exists>w m b lg u a oh.
                    deref s (lstmFcW (self s)) = Inr w \<and> dl_matMul lib h2 w = Inr m
                  \<and> deref s (lstmFcB (self s)) = Inr b \<and> dl_add lib m b = Inr lg
                  \<and> fst (sampledOutput lib temperature lg u) = Inr a
                  \<and> dl_oneHot lib a outputSize = Inr oh \<and> dl_toFloat lib oh = Inr x1"
  proof (cases "j < n")
    case True
    with nextInputOf_teacher [OF ni True] show ?thesis by auto
  next
    case False
    from nextInputOf_sample [OF ni False] obtain h w m b lg a oh where
      "elemAt [h1, h2] 1 = Some h" "deref t (lstmFcW (self t)) = Inr w" "dl_matMul lib h w = Inr m"
      "deref t (lstmFcB (self t)) = Inr b" "dl_add lib m b = Inr lg"
      "sampledOutput lib temperature lg t = (Inr a, t1)"
      "dl_oneHot lib a outputSize = Inr oh" "dl_toFloat lib oh = Inr x1"
      by blast
    moreover from this have "h = h2" "fst (sampledOutput lib temperature lg t) = Inr a"
      by (simp_all add: elemAt_def)
    ultimately have "\<exists>w m b lg u a oh.
                    deref s (lstmFcW (self s)) = Inr w \<and> dl_matMul lib h2 w = Inr m
                  \<and> deref s (lstmFcB (self s)) = Inr b \<and> dl_add lib m b = Inr lg
                  \<and> fst (sampledOutput lib temperature lg u) = Inr a
                  \<and> dl_oneHot lib a outputSize = Inr oh \<and> dl_toFloat lib oh = Inr x1"
      using deref_frame [OF fr] by metis
    with False show ?thesis by simp
  qed
  show "\<exists>x1 W1 b1 W2 b2 c1 h1 c2 h2 c1' h1' c2' h2'.
           fst v = [c1, c2] \<and> fst (snd v) = [h1, h2]
         \<and> deref s (lstmKernel1 (self s)) = Inr W1 \<and> deref s (lstmBias1 (self s)) = Inr b1
         \<and> deref s (lstmKernel2 (self s)) = Inr W2 \<and> deref s (lstmBias2 (self s)) = Inr b2
         \<and> cell fb W1 b1 x1 c1 h1 = Inr (c1', h1') \<and> cell fb W2 b2 h1' c2 h2 = Inr (c2', h2')
         \<and> fst v' = [c1', c2'] \<and> fst (snd v') = [h1', h2']
         \<and> (if j < n
             then \<exists>sl. dl_slice lib inputs [j, 0] [1, outputSize] = Inr sl
                      \<and> dl_as2D lib sl 1 outputSize = Inr x1
             else \<exists>w m b lg u a oh.
                    deref s (lstmFcW (self s)) = Inr w \<and> dl_matMul lib h2 w = Inr m
                  \<and> deref s (lstmFcB (self s)) = Inr b \<and> dl_add lib m b = Inr lg
                  \<and> fst (sampledOutput lib temperature lg u) = Inr a
                  \<and> dl_oneHot lib a outputSize = Inr oh \<and> dl_toFloat lib oh = Inr x1)"
    unfolding v1 v' out
  proof (rule exI [of _ x1], rule exI [of _ W1], rule exI [of _ b1], rule exI [of _ W2],
      rule exI [of _ b2], rule exI [of _ c1], rule exI [of _ h1], rule exI [of _ c2],
      rule exI [of _ h2], rule exI [of _ c1'], rule exI [of _ h1'], rule exI [of _ c2'],
      rule exI [of _ h2'], intro conjI)
    show "if j < n
             then \<exists>sl. dl_slice lib inputs [j, 0] [1, outputSize] = Inr sl
                      \<and> dl_as2D lib sl 1 outputSize = Inr x1
             else \<exists>w m b lg u a oh.
                    deref s (lstmFcW (self s)) = Inr w \<and> dl_matMul lib h2 w = Inr m
                  \<and> deref s (lstmFcB (self s)) = Inr b \<and> dl_add lib m b = Inr lg
                  \<and> fst (sampledOutput lib temperature lg u) = Inr a
                  \<and> dl_oneHot lib a outputSize = Inr oh \<and> dl_toFloat lib oh = Inr x1"
      by (rule origin)
  qed (simp_all add: cells)
  from fr1 out v' show "self t' = self s \<and> heap t' = heap s
         \<and> (\<exists>a1 a2 e1 e2. fst v' = [a1, a2] \<and> fst (snd v') = [e1, e2])"
    by simp
qed

text \<open>The cells of every step of a run that returns.\<close>

lemma run_applies_cells:
  assumes cell: "dl_basicLSTMCell lib = cell" and stack: "dl_multiRNNCell lib = multiRNNCell"
    and run: "continueSequence lib sequence steps temperature s = (Inr outputs, s')"
  shows "\<exists>inputs one cs hs.
           dl_toTensor lib \<lparr> numSteps = totalQuantizedSteps sequence, minPitch = 48, maxPitch = 84 \<rparr>
             sequence = Inr inputs
         \<and> dl_scalar lib (Num 1) = Inr one
         \<and> (\<forall>j. int j < int (fst (dl_shape2D lib inputs)) + steps \<longrightarrow>
              (\<exists>x1 W1 b1 W2 b2 c1 h1 c2 h2 c1' h1' c2' h2'.
                 cs j = [c1, c2] \<and> hs j = [h1, h2]
               \<and> deref s (lstmKernel1 (self s)) = Inr W1 \<and> deref s (lstmBias1 (self s)) = Inr b1
               \<and> deref s (lstmKernel2 (self s)) = Inr W2 \<and> deref s (lstmBias2 (self s)) = Inr b2
               \<and> cell one W1 b1 x1 c1 h1 = Inr (c1', h1')
               \<and> cell one W2 b2 h1' c2 h2 = Inr (c2', h2')
               \<and> cs (Suc j) = [c1', c2'] \<and> hs (Suc j) = [h1', h2']
               \<and> (if j < fst (dl_shape2D lib inputs)
                   then \<exists>sl. dl_slice lib inputs [j, 0] [1, snd (dl_shape2D lib inputs)] = Inr sl
                            \<and> dl_as2D lib sl 1 (snd (dl_shape2D lib inputs)) = Inr x1
                   else \<exists>w m b lg u a oh.
                          deref s (lstmFcW (self s)) = Inr w \<and> dl_matMul lib h2 w = Inr m
                        \<and> deref s (lstmFcB (self s)) = Inr b \<and> dl_add lib m b = Inr lg
                        \<and> fst (sampledOutput lib temperature lg u) = Inr a
                        \<and> dl_oneHot lib a (snd (dl_shape2D lib inputs)) = Inr oh
                        \<and> dl_toFloat lib oh = Inr x1)))"
proof -
  from continueSequence_Inr [OF run] obtain inputs one c0 c1 h0 h1 c h samples s1 where
    tt: "dl_toTensor lib \<lparr> numSteps = totalQuantizedSteps sequence, minPitch = 48, maxPitch = 84 \<rparr>
             sequence = Inr inputs"
    and one: "dl_scalar lib (Num 1) = Inr one"
    and s1: "self s1 = self s" "heap s1 = heap s"
    and loop: "forLoop (int (fst (dl_shape2D lib inputs)) + steps)
             (loopBody lib inputs (fst (dl_shape2D lib inputs)) (snd (dl_shape2D lib inputs))
                temperature one) 0 ([c0, c1], [h0, h1], []) s1 = (Inr (c, h, samples), s')"
    by blast
  let ?n = "fst (dl_shape2D lib inputs)" and ?d = "snd (dl_shape2D lib inputs)"
  let ?B = "loopBody lib inputs ?n ?d temperature one"
  from forLoop_trace [OF loop] obtain f g N where
    f0: "f 0 = ([c0, c1], [h0, h1], [])" and g0: "g 0 = s1"
    and exit: "\<not> int N < int ?n + steps"
    and tr: "\<forall>j. 0 \<le> j \<and> j < N \<longrightarrow>
               int j < int ?n + steps \<and> ?B j (f j) (g j) = (Inr (f (Suc j)), g (Suc j))"
    by blast
  let ?I = "\<lambda>j. self (g j) = self s \<and> heap (g j) = heap s
              \<and> (\<exists>a1 a2 e1 e2. fst (f j) = [a1, a2] \<and> fst (snd (f j)) = [e1, e2])"
  have inv: "j \<le> N \<Longrightarrow> ?I j" for j
  proof (induction j)
    case 0
    with f0 g0 s1 show ?case by simp
  next
    case (Suc j)
    then have i: "?I j" and lt: "j < N" by simp_all
    from tr lt have b: "?B j (f j) (g j) = (Inr (f (Suc j)), g (Suc j))" by simp
    from i have fr: "self (g j) = self s" "heap (g j) = heap s"
      and v: "\<exists>a1 a2 e1 e2. fst (f j) = [a1, a2] \<and> fst (snd (f j)) = [e1, e2]"
      by simp_all
    show ?case by (rule step_applies_cells(2) [OF cell stack fr v b])
  qed
  show ?thesis
  proof (rule exI [of _ inputs], rule exI [of _ one], rule exI [of _ "\<lambda>j. fst (f j)"],
      rule exI [of _ "\<lambda>j. fst (snd (f j))"], intro conjI allI impI)
    show "dl_toTensor lib \<lparr> numSteps = totalQuantizedSteps sequence, minPitch = 48, maxPitch = 84 \<rparr>
             sequence = Inr inputs"
      by (rule tt)
    show "dl_scalar lib (Num 1) = Inr one" by (rule one)
  next
    fix j
    assume j: "int j < int ?n + steps"
    with exit have lt: "j < N" by linarith
    from tr lt have b: "?B j (f j) (g j) = (Inr (f (Suc j)), g (Suc j))" by simp
    from inv [of j] lt have fr: "self (g j) = self s" "heap (g j) = heap s"
      and v: "\<exists>a1 a2 e1 e2. fst (f j) = [a1, a2] \<and> fst (snd (f j)) = [e1, e2]"
      by simp_all
    show "\<exists>x1 W1 b1 W2 b2 c1 h1 c2 h2 c1' h1' c2' h2'.
                 fst (f j) = [c1, c2] \<and> fst (snd (f j)) = [h1, h2]
               \<and> deref s (lstmKernel1 (self s)) = Inr W1 \<and> deref s (lstmBias1 (self s)) = Inr b1
               \<and> deref s (lstmKernel2 (self s)) = Inr W2 \<and> deref s (lstmBias2 (self s)) = Inr b2
               \<and> cell one W1 b1 x1 c1 h1 = Inr (c1', h1')
               \<and> cell one W2 b2 h1' c2 h2 = Inr (c2', h2')
               \<and> fst (f (Suc j)) = [c1', c2'] \<and> fst (snd (f (Suc j))) = [h1', h2']
               \<and> (if j < ?n
                   then \<exists>sl. dl_slice lib inputs [j, 0] [1, ?d] = Inr sl
                            \<and> dl_as2D lib sl 1 ?d = Inr x1
                   else \<exists>w m b lg u a oh.
                          deref s (lstmFcW (self s)) = Inr w \<and> dl_matMul lib h2 w = Inr m
                        \<and> deref s (lstmFcB (self s)) = Inr b \<and> dl_add lib m b = Inr lg
                        \<and> fst (sampledOutput lib temperature lg u) = Inr a
                        \<and> dl_oneHot lib a ?d = Inr oh
                        \<and> dl_toFloat lib oh = Inr x1)"
      by (rule step_applies_cells(1) [OF cell stack fr v b])
  qed
qed

lemma recurrentStep_cong:
  assumes "dl_multiRNNCell l1 = dl_multiRNNCell l2" "dl_basicLSTMCell l1 fb = dl_basicLSTMCell l2 fb"
  shows "recurrentStep l1 fb x c h = recurrentStep l2 fb x c h"
proof -
  have c: "lstm1 l1 fb s = lstm1 l2 fb s" "lstm2 l1 fb s = lstm2 l2 fb s" for s
    using assms(2) by (intro ext, simp add: lstm1_def lstm2_def)+
  show ?thesis
    using assms(1) by (intro ext) (simp add: recurrentStep_def c)
qed

section \<open>The reference instance keeps the contract\<close>







section \<open>The example runs\<close>

lemma exState_eq:
  "exState b g =
     \<lparr> self = \<lparr> checkpointURL = CHECKPOINT_URL, rawVars = None,
                lstmKernel1 = Some 0, lstmBias1 = Some 1, lstmKernel2 = Some 2,
                lstmBias2 = Some 3, lstmFcB = Some 4, lstmFcW = Some 5 \<rparr>,
       heap = map (\<lambda>(name, t). \<lparr> tval = t, isDisposed = False \<rparr>) (exCheckpoint b),
       rng = g \<rparr>"
  by (simp add: exState_def newState_def initialize_def refLib_def ref_getAllVariables_def
      exWeb_def constructor_def exCheckpoint_def)

lemma exState_sel [simp]:
  "deref (exState b g) (lstmKernel1 (self (exState b g))) = Inr (Mat 4 (replicate 39 [0, 0, 0, 0]))"
  "deref (exState b g) (lstmBias1 (self (exState b g))) = Inr (Vec [0, 0, 0, 0])"
  "deref (exState b g) (lstmKernel2 (self (exState b g))) = Inr (Mat 4 (replicate 2 [0, 0, 0, 0]))"
  "deref (exState b g) (lstmBias2 (self (exState b g))) = Inr (Vec [0, 0, 0, 0])"
  "deref (exState b g) (lstmFcB (self (exState b g))) = Inr (Vec b)"
  "deref (exState b g) (lstmFcW (self (exState b g))) = Inr (Mat (length b) [replicate (length b) 0])"
  by (simp_all add: exState_eq deref_def readTensor_def elemAt_def exCheckpoint_def)

lemma length_oneHotRow [simp]: "length (oneHotRow d v) = d"
  by (simp add: oneHotRow_def)

lemma ex_toTensor:
  "ref_toTensor \<lparr> numSteps = Some 1, minPitch = 48, maxPitch = 84 \<rparr> exSeq
   = Inr (Mat 38 [oneHotRow 38 14])"
  by (simp add: ref_toTensor_def exSeq_def classAt_def)

lemma rowTimes_zeros: "rowTimes 4 xs (replicate n [0, 0, 0, 0]) = [0, 0, 0, 0]"
proof (induction xs arbitrary: n)
  case Nil
  show ?case by (simp add: eval_nat_numeral)
next
  case (Cons x xs)
  show ?case
  proof (cases n)
    case 0
    then show ?thesis by (simp add: eval_nat_numeral)
  next
    case (Suc m)
    then show ?thesis using Cons.IH [of m] by simp
  qed
qed

text \<open>A cell with zero weights keeps the zero state, whatever the input row.\<close>

lemma zero_cell:
  "length row = m \<Longrightarrow>
   basicLSTMCell refOps (Scalar 1) (Mat 4 (replicate (Suc m) [0, 0, 0, 0])) (Vec [0, 0, 0, 0])
     (Mat m [row]) zeroState zeroState = Inr (zeroState, zeroState)"
proof -
  have rt: "rowTimes 4 xs ([0, 0, 0, 0] # replicate m [0, 0, 0, 0]) = [0, 0, 0, 0]" for xs
    using rowTimes_zeros [of xs "Suc m"] by simp
  assume "length row = m"
  then show ?thesis
    by (simp add: basicLSTMCell_def refOps_def bindE_def rt ref_add_def ref_mul_def
        ref_sigmoid_def ref_tanh_def zeroState_def)
qed

lemma ex_recurrentStep:
  assumes "length row = 38"
  shows "recurrentStep (refLib w) (Scalar 1) (Mat 38 [row]) [zeroState, zeroState]
           [zeroState, zeroState] (exState b g)
         = (Inr ([zeroState, zeroState], [zeroState, zeroState]), exState b g)"
proof -
  have c1: "basicLSTMCell refOps (Scalar 1) (Mat 4 (replicate 39 [0, 0, 0, 0])) (Vec [0, 0, 0, 0])
     (Mat 38 [row]) zeroState zeroState = Inr (zeroState, zeroState)"
    using zero_cell [OF assms] by simp
  have c2: "basicLSTMCell refOps (Scalar 1) (Mat 4 (replicate 2 [0, 0, 0, 0])) (Vec [0, 0, 0, 0])
     zeroState zeroState zeroState = Inr (zeroState, zeroState)"
    using zero_cell [of "[0]" 1] by (simp add: numeral_2_eq_2 zeroState_def)
  show ?thesis
    by (simp add: recurrentStep_def refLib_def lstm1_def lstm2_def bindE_def c1 c2)
qed

lemma ex_teacher_step:
  assumes "i < n" "i < length rows" "length (rows ! i) = 38"
  shows "loopBody (refLib w) (Mat 38 rows) n 38 temperature (Scalar 1) i
           ([zeroState, zeroState], [zeroState, zeroState], samples) (exState b g)
         = (Inr ([zeroState, zeroState], [zeroState, zeroState], samples), exState b g)"
proof -
  have sl: "dl_slice (refLib w) (Mat 38 rows) [i, 0] [Suc 0, 38] = Inr (Mat 38 [rows ! i])"
    using assms by (simp add: refLib_def take_Suc_conv_app_nth)
  have a2: "dl_as2D (refLib w) (Mat 38 [rows ! i]) (Suc 0) 38 = Inr (Mat 38 [rows ! i])"
    using assms by (simp add: refLib_def ref_as2D_def)
  show ?thesis
    using assms
    by (simp add: loopBody_def nextInputOf_def bindS_def liftE_def bindE_def sl a2
        ex_recurrentStep)
qed

lemma rowTimes_single_zero: "rowTimes n [0] [replicate n 0] = replicate n 0"
  by (simp add: map_replicate_const zip_replicate)

lemma map2_add_zeros: "map2 (+) (replicate (length b) (0::real)) b = b"
  by (induction b) auto

lemma ex_logits:
  assumes "0 < length b"
  shows "logitsOf (refLib w) [zeroState, zeroState] (exState b g)
         = (Inr (Mat (length b) [b]), exState b g)"
  by (simp add: logitsOf_def elemAt_def bindS_def liftE_def param_def refLib_def ref_add_def
      rowTimes_single_zero map2_add_zeros zeroState_def)

lemma ex_oneHot: "dl_oneHot (refLib w) (Vec [v]) 38 = Inr (Mat 38 [oneHotRow 38 v])"
  by (simp add: refLib_def)

lemma ex_toFloat: "dl_toFloat (refLib w) t = Inr t"
  by (simp add: refLib_def ref_toFloat_def)

lemma ex_asScalar: "dl_asScalar (refLib w) (Vec [v]) = Inr (Scalar v)"
  by (simp add: refLib_def ref_asScalar_def)

lemma ex_argmax_step:
  assumes "0 < length b" "falsy temperature" "\<not> i < n"
  shows "loopBody (refLib w) inputs n 38 temperature (Scalar 1) i
           ([zeroState, zeroState], [zeroState, zeroState], samples) (exState b g)
         = (Inr ([zeroState, zeroState], [zeroState, zeroState],
                 samples @ [Scalar (real (argmaxList b))]), exState b g)"
proof -
  have am: "argMaxBranch (refLib w) (Mat (length b) [b]) = Inr (Vec [real (argmaxList b)])"
    using assms(1) by (simp add: argMaxBranch_def refLib_def bindE_def ref_as1D_def)
  show ?thesis
    using assms
    by (simp add: loopBody_def nextInputOf_def bindS_def liftE_def bindE_def ex_logits
        sampledOutput_falsy am ex_oneHot ex_toFloat ex_asScalar ex_recurrentStep)
qed

lemma ex_multinomial_step:
  assumes "0 < length b" "t \<noteq> 0" "\<not> i < n"
  shows "loopBody (refLib w) inputs n 38 (Some (Num t)) (Scalar 1) i
           ([zeroState, zeroState], [zeroState, zeroState], samples) (exState b (k # g))
         = (Inr ([zeroState, zeroState], [zeroState, zeroState],
                 samples @ [Scalar (real (min k (length b - 1)))]), exState b g)"
proof -
  have mb: "multinomialBranch (refLib w) (Num t) (Mat (length b) [b]) (exState b (k # g))
            = (Inr (Vec [real (min k (length b - 1))]), exState b g)"
    using assms(1,2)
    by (simp add: multinomialBranch_def refLib_def bindS_def liftE_def ref_div_def ref_as1D_def
        exState_eq)
  show ?thesis
    using assms
    by (simp add: loopBody_def nextInputOf_def bindS_def liftE_def bindE_def ex_logits
        sampledOutput_def mb ex_oneHot ex_toFloat ex_asScalar ex_recurrentStep)
qed

lemma argmaxFrom_zeros: "0 \<le> bv \<Longrightarrow> argmaxFrom (replicate k 0) i best bv = best"
  by (induction k arbitrary: i) auto

lemma argmaxFrom_skip:
  "argmaxFrom (replicate k 0 @ rest) i best 0 = argmaxFrom rest (i + k) best 0"
  by (induction k arbitrary: i) auto

lemma argmaxList_peak: "argmaxList (replicate n 0 @ 5 # replicate m 0) = n"
proof (cases n)
  case 0
  then show ?thesis by (simp add: argmaxFrom_zeros)
next
  case (Suc k)
  then show ?thesis
    using argmaxFrom_skip [of k "5 # replicate m 0" 1 0]
    by (simp add: argmaxFrom_zeros)
qed

lemma argmax_exBias: "argmaxList exBias = 7" and length_exBias: "length exBias = 38"
  by (simp_all add: exBias_def argmaxList_peak)


lemma ex_zerosFor:
  "zerosFor (refLib w) lstmBias1 (exState b g) = (Inr zeroState, exState b g)"
  "zerosFor (refLib w) lstmBias2 (exState b g) = (Inr zeroState, exState b g)"
  by (simp_all add: zerosFor_def bindS_def param_def liftE_def refLib_def isNat_def zeroState_def)

lemma ex_scalarData: "dl_scalarData (refLib w) (Scalar x) = Inr (Num x)"
  by (simp add: refLib_def)

lemma ex_start:
  "dl_toTensor (refLib w) \<lparr>numSteps = totalQuantizedSteps exSeq, minPitch = 48, maxPitch = 84\<rparr> exSeq
   = Inr (Mat 38 [oneHotRow 38 14])"
  "dl_scalar (refLib w) (Num 1) = Inr (Scalar 1)"
  "dl_shape2D (refLib w) (Mat 38 [oneHotRow 38 14]) = (Suc 0, 38)"
  using ex_toTensor by (simp_all add: refLib_def exSeq_def)

text \<open>
  The melody of one step, continued by two steps on the arg-max path: both samples are
  the position of the largest bias.
\<close>

lemma ex_run_falsy:
  assumes "falsy temperature" "0 < length b"
  shows "continueSequence (refLib w) exSeq 2 temperature (exState b g)
         = (Inr [Num (real (argmaxList b)), Num (real (argmaxList b))], exState b g)"
proof -
  let ?B = "loopBody (refLib w) (Mat 38 [oneHotRow 38 14]) (Suc 0) 38 temperature (Scalar 1)"
  let ?Z = "[zeroState, zeroState]"
  let ?v = "Scalar (real (argmaxList b))"
  let ?st = "exState b g"
  have l0: "?B 0 (?Z, ?Z, []) ?st = (Inr (?Z, ?Z, []), ?st)"
    by (rule ex_teacher_step) simp_all
  have l1: "?B (Suc 0) (?Z, ?Z, []) ?st = (Inr (?Z, ?Z, [] @ [?v]), ?st)"
    by (rule ex_argmax_step [OF assms(2,1)]) simp
  have l2: "?B (Suc (Suc 0)) (?Z, ?Z, [?v]) ?st = (Inr (?Z, ?Z, [?v] @ [?v]), ?st)"
    by (rule ex_argmax_step [OF assms(2,1)]) simp
  have "forLoop 3 ?B 0 (?Z, ?Z, []) ?st = forLoop 3 ?B (Suc 0) (?Z, ?Z, []) ?st"
    by (rule forLoop_step_Inr [of 0 3 ?B _ ?st]) (simp_all add: l0)
  also have "\<dots> = forLoop 3 ?B (Suc (Suc 0)) (?Z, ?Z, [?v]) ?st"
    by (rule forLoop_step_Inr [of "Suc 0" 3 ?B _ ?st]) (simp_all add: l1)
  also have "\<dots> = forLoop 3 ?B (Suc (Suc (Suc 0))) (?Z, ?Z, [?v, ?v]) ?st"
    by (rule forLoop_step_Inr [of "Suc (Suc 0)" 3 ?B _ ?st]) (simp_all add: l2)
  also have "\<dots> = (Inr (?Z, ?Z, [?v, ?v]), ?st)"
    by (rule forLoop_exit) simp
  finally have loop: "forLoop 3 ?B 0 (?Z, ?Z, []) ?st = (Inr (?Z, ?Z, [?v, ?v]), ?st)" .
  show ?thesis
    by (simp add: continueSequence_def DEFAULT_MIN_NOTE_def DEFAULT_MAX_NOTE_def bindS_def liftE_def
        ex_start ex_zerosFor loop ex_scalarData bindE_def)
qed

text \<open>The same continuation with a temperature: the samples are the generator's draws.\<close>

lemma ex_run_sampling:
  assumes "t \<noteq> 0" "0 < length b"
  shows "continueSequence (refLib w) exSeq 2 (Some (Num t)) (exState b (k1 # k2 # g))
         = (Inr [Num (real (min k1 (length b - 1))), Num (real (min k2 (length b - 1)))],
            exState b g)"
proof -
  let ?B = "loopBody (refLib w) (Mat 38 [oneHotRow 38 14]) (Suc 0) 38 (Some (Num t)) (Scalar 1)"
  let ?Z = "[zeroState, zeroState]"
  let ?u = "Scalar (real (min k1 (length b - Suc 0)))"
  let ?v = "Scalar (real (min k2 (length b - Suc 0)))"
  let ?s0 = "exState b (k1 # k2 # g)"
  let ?s1 = "exState b (k2 # g)"
  let ?s2 = "exState b g"
  have l0: "?B 0 (?Z, ?Z, []) ?s0 = (Inr (?Z, ?Z, []), ?s0)"
    by (rule ex_teacher_step) simp_all
  have l1: "?B (Suc 0) (?Z, ?Z, []) ?s0 = (Inr (?Z, ?Z, [?u]), ?s1)"
    using ex_multinomial_step [OF assms(2,1), where i = "Suc 0" and n = "Suc 0"
        and samples = "[]" and k = k1 and g = "k2 # g" and w = w
        and inputs = "Mat 38 [oneHotRow 38 14]"]
    by simp
  have l2: "?B (Suc (Suc 0)) (?Z, ?Z, [?u]) ?s1 = (Inr (?Z, ?Z, [?u, ?v]), ?s2)"
    using ex_multinomial_step [OF assms(2,1), where i = "Suc (Suc 0)" and n = "Suc 0"
        and samples = "[?u]" and k = k2 and g = g and w = w
        and inputs = "Mat 38 [oneHotRow 38 14]"]
    by simp
  have "forLoop 3 ?B 0 (?Z, ?Z, []) ?s0 = forLoop 3 ?B (Suc 0) (?Z, ?Z, []) ?s0"
    by (rule forLoop_step_Inr [of 0 3 ?B _ ?s0]) (simp_all add: l0)
  also have "\<dots> = forLoop 3 ?B (Suc (Suc 0)) (?Z, ?Z, [?u]) ?s1"
    by (rule forLoop_step_Inr [of "Suc 0" 3 ?B _ ?s0]) (simp_all add: l1)
  also have "\<dots> = forLoop 3 ?B (Suc (Suc (Suc 0))) (?Z, ?Z, [?u, ?v]) ?s2"
    by (rule forLoop_step_Inr [of "Suc (Suc 0)" 3 ?B _ ?s1]) (simp_all add: l2)
  also have "\<dots> = (Inr (?Z, ?Z, [?u, ?v]), ?s2)"
    by (rule forLoop_exit) simp
  finally have loop: "forLoop 3 ?B 0 (?Z, ?Z, []) ?s0 = (Inr (?Z, ?Z, [?u, ?v]), ?s2)" .
  show ?thesis
    by (simp add: continueSequence_def DEFAULT_MIN_NOTE_def DEFAULT_MAX_NOTE_def bindS_def liftE_def
        ex_start ex_zerosFor loop ex_scalarData bindE_def)
qed

text \<open>The same steps and runs with operations of the instance replaced.\<close>

lemma probe_recurrentStep:
  "recurrentStep (probeLib w tt dv mn am) fb x c h = recurrentStep (refLib w) fb x c h"
  by (rule recurrentStep_cong) (simp_all add: probeLib_def)

lemma probe_teacher_step:
  assumes "i < n" "i < length rows" "length (rows ! i) = 38"
  shows "loopBody (probeLib w tt dv mn am) (Mat 38 rows) n 38 temperature (Scalar 1) i
           ([zeroState, zeroState], [zeroState, zeroState], samples) (exState b g)
         = (Inr ([zeroState, zeroState], [zeroState, zeroState], samples), exState b g)"
proof -
  have "loopBody (probeLib w tt dv mn am) (Mat 38 rows) n 38 temperature (Scalar 1) i
           ([zeroState, zeroState], [zeroState, zeroState], samples) (exState b g)
        = loopBody (refLib w) (Mat 38 rows) n 38 temperature (Scalar 1) i
           ([zeroState, zeroState], [zeroState, zeroState], samples) (exState b g)"
    using assms(1) by (simp add: loopBody_def nextInputOf_def probe_recurrentStep) (simp add: probeLib_def)
  with ex_teacher_step [OF assms] show ?thesis by simp
qed

lemma probe_logits:
  "logitsOf (probeLib w tt dv mn am) h = logitsOf (refLib w) h"
  by (simp add: logitsOf_def probeLib_def cong: option.case_cong)

lemma probe_sample_step:
  assumes "0 < length b" "\<not> i < n"
    and "sampledOutput (probeLib w tt dv mn am) temperature (Mat (length b) [b]) (exState b g)
         = (Inr (Vec [v]), exState b g')"
  shows "loopBody (probeLib w tt dv mn am) inputs n 38 temperature (Scalar 1) i
           ([zeroState, zeroState], [zeroState, zeroState], samples) (exState b g)
         = (Inr ([zeroState, zeroState], [zeroState, zeroState], samples @ [Scalar v]),
            exState b g')"
proof -
  have f: "dl_oneHot (probeLib w tt dv mn am) = dl_oneHot (refLib w)"
    "dl_toFloat (probeLib w tt dv mn am) = dl_toFloat (refLib w)"
    "dl_asScalar (probeLib w tt dv mn am) = dl_asScalar (refLib w)"
    by (simp_all add: probeLib_def)
  show ?thesis
    using assms
    by (simp add: loopBody_def nextInputOf_def bindS_def liftE_def bindE_def probe_logits
        ex_logits f ex_oneHot ex_toFloat ex_asScalar probe_recurrentStep ex_recurrentStep)
qed

lemma probe_sample_fails:
  assumes "0 < length b" "\<not> i < n"
    and "sampledOutput (probeLib w tt dv mn am) temperature (Mat (length b) [b]) (exState b g)
         = (Inl e, exState b g')"
  shows "loopBody (probeLib w tt dv mn am) inputs n 38 temperature (Scalar 1) i
           ([zeroState, zeroState], [zeroState, zeroState], samples) (exState b g)
         = (Inl e, exState b g')"
  using assms
  by (simp add: loopBody_def nextInputOf_def bindS_def liftE_def bindE_def probe_logits ex_logits)

lemma probe_start:
  "dl_scalar (probeLib w tt dv mn am) (Num 1) = Inr (Scalar 1)"
  "dl_shape2D (probeLib w tt dv mn am) (Mat 38 [row]) = (Suc 0, 38)"
  "zerosFor (probeLib w tt dv mn am) f = zerosFor (refLib w) f"
  "collect (probeLib w tt dv mn am) xs acc = collect (refLib w) xs acc"
  "dl_toTensor (probeLib w tt dv mn am) = tt"
  by (simp_all add: probeLib_def refLib_def zerosFor_def collect_cong)

text \<open>
  A melody that encodes to one row, continued by two steps: the outputs are what the
  sampling step returns at the logits of the bias.
\<close>

lemma probe_run:
  assumes tt: "tt \<lparr> numSteps = totalQuantizedSteps sq, minPitch = 48, maxPitch = 84 \<rparr> sq
               = Inr (Mat 38 [row])"
    and row: "length row = 38" and b: "0 < length b"
    and so1: "sampledOutput (probeLib w tt dv mn am) temperature (Mat (length b) [b]) (exState b g0)
         = (Inr (Vec [v1]), exState b g1)"
    and so2: "sampledOutput (probeLib w tt dv mn am) temperature (Mat (length b) [b]) (exState b g1)
         = (Inr (Vec [v2]), exState b g2)"
  shows "continueSequence (probeLib w tt dv mn am) sq 2 temperature (exState b g0)
         = (Inr [Num v1, Num v2], exState b g2)"
proof -
  let ?L = "probeLib w tt dv mn am"
  let ?B = "loopBody ?L (Mat 38 [row]) (Suc 0) 38 temperature (Scalar 1)"
  let ?Z = "[zeroState, zeroState]"
  have l0: "?B 0 (?Z, ?Z, []) (exState b g0) = (Inr (?Z, ?Z, []), exState b g0)"
    by (rule probe_teacher_step) (simp_all add: row)
  have l1: "?B (Suc 0) (?Z, ?Z, []) (exState b g0) = (Inr (?Z, ?Z, [] @ [Scalar v1]), exState b g1)"
    by (rule probe_sample_step [OF b _ so1]) simp
  have l2: "?B (Suc (Suc 0)) (?Z, ?Z, [Scalar v1]) (exState b g1)
            = (Inr (?Z, ?Z, [Scalar v1] @ [Scalar v2]), exState b g2)"
    by (rule probe_sample_step [OF b _ so2]) simp
  have "forLoop 3 ?B 0 (?Z, ?Z, []) (exState b g0) = forLoop 3 ?B (Suc 0) (?Z, ?Z, []) (exState b g0)"
    by (rule forLoop_step_Inr [of 0 3 ?B _ "exState b g0"]) (simp_all add: l0)
  also have "\<dots> = forLoop 3 ?B (Suc (Suc 0)) (?Z, ?Z, [Scalar v1]) (exState b g1)"
    by (rule forLoop_step_Inr [of "Suc 0" 3 ?B _ "exState b g0"]) (simp_all add: l1)
  also have "\<dots> = forLoop 3 ?B (Suc (Suc (Suc 0))) (?Z, ?Z, [Scalar v1, Scalar v2]) (exState b g2)"
    by (rule forLoop_step_Inr [of "Suc (Suc 0)" 3 ?B _ "exState b g1"]) (simp_all add: l2)
  also have "\<dots> = (Inr (?Z, ?Z, [Scalar v1, Scalar v2]), exState b g2)"
    by (rule forLoop_exit) simp
  finally have loop: "forLoop 3 ?B 0 (?Z, ?Z, []) (exState b g0)
                      = (Inr (?Z, ?Z, [Scalar v1, Scalar v2]), exState b g2)" .
  show ?thesis
    by (simp add: continueSequence_def DEFAULT_MIN_NOTE_def DEFAULT_MAX_NOTE_def bindS_def liftE_def
        probe_start tt ex_zerosFor loop ex_scalarData bindE_def)
qed

lemma probe_run_fails:
  assumes tt: "tt \<lparr> numSteps = totalQuantizedSteps sq, minPitch = 48, maxPitch = 84 \<rparr> sq
               = Inr (Mat 38 [row])"
    and row: "length row = 38" and b: "0 < length b"
    and so1: "sampledOutput (probeLib w tt dv mn am) temperature (Mat (length b) [b]) (exState b g0)
         = (Inl e, exState b g1)"
  shows "continueSequence (probeLib w tt dv mn am) sq 2 temperature (exState b g0)
         = (Inl e, exState b g1)"
proof -
  let ?L = "probeLib w tt dv mn am"
  let ?B = "loopBody ?L (Mat 38 [row]) (Suc 0) 38 temperature (Scalar 1)"
  let ?Z = "[zeroState, zeroState]"
  have l0: "?B 0 (?Z, ?Z, []) (exState b g0) = (Inr (?Z, ?Z, []), exState b g0)"
    by (rule probe_teacher_step) (simp_all add: row)
  have l1: "?B (Suc 0) (?Z, ?Z, []) (exState b g0) = (Inl e, exState b g1)"
    by (rule probe_sample_fails [OF b _ so1]) simp
  have "forLoop 3 ?B 0 (?Z, ?Z, []) (exState b g0) = forLoop 3 ?B (Suc 0) (?Z, ?Z, []) (exState b g0)"
    by (rule forLoop_step_Inr [of 0 3 ?B _ "exState b g0"]) (simp_all add: l0)
  also have "\<dots> = (Inl e, exState b g1)"
    by (rule forLoop_step_Inl [of "Suc 0" 3 ?B _ "exState b g0"]) (simp_all add: l1)
  finally have loop: "forLoop 3 ?B 0 (?Z, ?Z, []) (exState b g0) = (Inl e, exState b g1)" .
  show ?thesis
    by (simp add: continueSequence_def DEFAULT_MIN_NOTE_def DEFAULT_MAX_NOTE_def bindS_def liftE_def
        probe_start tt ex_zerosFor loop)
qed


lemma probe_divOnlyBy:
  assumes "t \<noteq> 0" "0 < length b"
  shows "sampledOutput (probeLib w tt (divOnlyBy t) ref_multinomial am) (Some (Num t))
           (Mat (length b) [b]) (exState b (k # g))
         = (Inr (Vec [real (min k (length b - Suc 0))]), exState b g)"
  using assms
  by (simp add: sampledOutput_multinomial probeLib_def refLib_def ref_div_def ref_as1D_def
      exState_eq divOnlyBy_def)

lemma probe_divOnlyBy_other:
  assumes "t \<noteq> 0" "v \<noteq> t"
  shows "sampledOutput (probeLib w tt (divOnlyBy v) mn am) (Some (Num t)) logits s
         = (Inl ShapeError, s)"
  using assms
  by (simp add: sampledOutput_multinomial probeLib_def refLib_def divOnlyBy_def)

lemma probe_mode:
  assumes "t \<noteq> 0"
  shows "sampledOutput (probeLib w tt ref_div modeMultinomial am) (Some (Num t))
           (Mat (length b) [b]) (exState b g)
         = (Inr (Vec [real (argmaxList (map (\<lambda>x. x / t) b))]), exState b g)"
  using assms
  by (simp add: sampledOutput_multinomial probeLib_def refLib_def ref_div_def ref_as1D_def
      exState_eq)

lemma argmaxFrom_below: "\<forall>x \<in> set xs. x \<le> bv \<Longrightarrow> argmaxFrom xs i best bv = best"
  by (induction xs arbitrary: i) auto

lemma argmax_exBias_negated: "argmaxList (map uminus exBias) = 0"
  by (simp add: exBias_def eval_nat_numeral argmaxFrom_below)

text \<open>One cell of hidden size 1 on an input of width 1, operation by operation.\<close>

lemma refOps_sel:
  "co_concat refOps = ref_concat" "co_matMul refOps = ref_matMul" "co_add refOps = ref_add"
  "co_split4 refOps = ref_split4" "co_sigmoid refOps = ref_sigmoid" "co_tanh refOps = ref_tanh"
  "co_mul refOps = ref_mul"
  by (simp_all add: refOps_def)

lemma ex_cell_ops:
  "ref_concat (Mat 1 [[1]]) (Mat 1 [[0]]) = Inr (Mat 2 [[1, 0]])"
  "ref_add (Mat 4 [[1, 2, 3, 4]]) (Vec [0, 0, 0, 0]) = Inr (Mat 4 [[1, 2, 3, 4]])"
  "ref_add (Mat 1 [[3]]) (Scalar 1) = Inr (Mat 1 [[4]])"
  "ref_sigmoid (Mat 1 [[v]]) = Inr (Mat 1 [[sigmoid v]])"
  "ref_tanh (Mat 1 [[v]]) = Inr (Mat 1 [[tanh v]])"
  "ref_mul (Mat 1 [[1]]) (Mat 1 [[v]]) = Inr (Mat 1 [[v]])"
  "ref_mul (Mat 1 [[u]]) (Mat 1 [[v]]) = Inr (Mat 1 [[u * v]])"
  "ref_add (Mat 1 [[u]]) (Mat 1 [[v]]) = Inr (Mat 1 [[u + v]])"
  by (simp_all add: ref_add_def ref_mul_def ref_sigmoid_def ref_tanh_def)

lemma ex_cell_matMul:
  "ref_matMul (Mat 2 [[1, 0]]) (Mat 4 [[1, 2, 3, 4], [0, 0, 0, 0]]) = Inr (Mat 4 [[1, 2, 3, 4]])"
  by (simp add: eval_nat_numeral)

lemma ex_cell_split4:
  "ref_split4 (Mat 4 [[1, 2, 3, 4]]) = Inr (Mat 1 [[1]], Mat 1 [[2]], Mat 1 [[3]], Mat 1 [[4]])"
  by (simp add: numeral_2_eq_2 numeral_3_eq_3)


lemma rawVars_initialize:
  "rawVars (self (snd (initialize lib \<lparr> self = constructor url, heap = hp, rng = g \<rparr>))) = None"
  by (simp add: initialize_def constructor_def split: prod.splits sum.splits)

text \<open>
  After construction and \<open>initialize\<close>, whatever was loaded, \<open>dispose\<close> throws and
  releases nothing.
\<close>

lemma dispose_after_initialize:
  "dispose (snd (initialize lib \<lparr> self = constructor url, heap = hp, rng = g \<rparr>))
   = (Inl TypeError, snd (initialize lib \<lparr> self = constructor url, heap = hp, rng = g \<rparr>))"
  by (simp add: dispose_def rawVars_initialize)

section \<open>The claims\<close>



text \<open>
  C2. Each time step applies the gated transition with the forget bias 1.0, stacked over
  exactly two layers. For the cell and the stack of the tensor library as the spec
  describes them: a cell returns \<open>(c', h')\<close> exactly when
  \<open>gates = concat(x, h) \<cdot> W + b\<close> splits into \<open>(i, j, f, o)\<close>,
  \<open>c' = c \<odot> sigmoid(f + forget_bias) + sigmoid(i) \<odot> tanh(j)\<close> and
  \<open>h' = tanh(c') \<odot> sigmoid(o)\<close>. In a call of continueSequence that returns, every
  loop index \<open>j\<close> below length + steps applies two such cells with the forget bias
  \<open>dl.scalar(1.0)\<close>: layer 1 on the input frame (the slice of the encoded melody, or the
  one-hot encoding of the sample drawn from the logits of layer 2's hidden state) and its
  own \<open>(c, h)\<close> with the first kernel and bias, layer 2 on the new hidden state of
  layer 1 and its own \<open>(c, h)\<close> with the second kernel and bias; the two updated pairs
  are the recurrent state of index \<open>j + 1\<close>. No other forget bias is ever passed: a
  cell that throws for every forget bias other than \<open>scalar(1.0)\<close> changes no outcome.
\<close>

theorem two_layer_lstm_step:
  assumes "dl_basicLSTMCell lib = basicLSTMCell ops" and "dl_multiRNNCell lib = multiRNNCell"
  shows "(basicLSTMCell ops fb W b x c h = Inr (c', h') \<longleftrightarrow>
           (\<exists>xh weighted gates gi gj gf go biased keep kept gate cand written squashed out.
              co_concat ops x h = Inr xh \<and> co_matMul ops xh W = Inr weighted
            \<and> co_add ops weighted b = Inr gates \<and> co_split4 ops gates = Inr (gi, gj, gf, go)
            \<and> co_add ops gf fb = Inr biased \<and> co_sigmoid ops biased = Inr keep
            \<and> co_mul ops c keep = Inr kept
            \<and> co_sigmoid ops gi = Inr gate \<and> co_tanh ops gj = Inr cand
            \<and> co_mul ops gate cand = Inr written
            \<and> co_add ops kept written = Inr c'
            \<and> co_tanh ops c' = Inr squashed \<and> co_sigmoid ops go = Inr out
            \<and> co_mul ops squashed out = Inr h'))
       \<and> (continueSequence lib sequence steps temperature s = (Inr outputs, s') \<longrightarrow>
            (\<exists>inputs one cs hs.
               dl_toTensor lib
                 \<lparr> numSteps = totalQuantizedSteps sequence, minPitch = 48, maxPitch = 84 \<rparr>
                 sequence = Inr inputs
             \<and> dl_scalar lib (Num 1) = Inr one
             \<and> (\<forall>j. int j < int (fst (dl_shape2D lib inputs)) + steps \<longrightarrow>
                  (\<exists>x1 W1 b1 W2 b2 c1 h1 c2 h2 c1' h1' c2' h2'.
                     cs j = [c1, c2] \<and> hs j = [h1, h2]
                   \<and> deref s (lstmKernel1 (self s)) = Inr W1
                   \<and> deref s (lstmBias1 (self s)) = Inr b1
                   \<and> deref s (lstmKernel2 (self s)) = Inr W2
                   \<and> deref s (lstmBias2 (self s)) = Inr b2
                   \<and> basicLSTMCell ops one W1 b1 x1 c1 h1 = Inr (c1', h1')
                   \<and> basicLSTMCell ops one W2 b2 h1' c2 h2 = Inr (c2', h2')
                   \<and> cs (Suc j) = [c1', c2'] \<and> hs (Suc j) = [h1', h2']
                   \<and> (if j < fst (dl_shape2D lib inputs)
                       then \<exists>sl. dl_slice lib inputs [j, 0] [1, snd (dl_shape2D lib inputs)] = Inr sl
                                \<and> dl_as2D lib sl 1 (snd (dl_shape2D lib inputs)) = Inr x1
                       else \<exists>w m b lg u a oh.
                              deref s (lstmFcW (self s)) = Inr w \<and> dl_matMul lib h2 w = Inr m
                            \<and> deref s (lstmFcB (self s)) = Inr b \<and> dl_add lib m b = Inr lg
                            \<and> fst (sampledOutput lib temperature lg u) = Inr a
                            \<and> dl_oneHot lib a (snd (dl_shape2D lib inputs)) = Inr oh
                            \<and> dl_toFloat lib oh = Inr x1)))))
       \<and> continueSequence
           (lib\<lparr>dl_basicLSTMCell := \<lambda>fb. if dl_scalar lib (Num 1) = Inr fb then dl_basicLSTMCell lib fb
                                           else (\<lambda>W b x c h. Inl ShapeError)\<rparr>)
           sequence steps temperature s
         = continueSequence lib sequence steps temperature s"
proof (intro conjI impI)
  show "basicLSTMCell ops fb W b x c h = Inr (c', h') \<longleftrightarrow>
           (\<exists>xh weighted gates gi gj gf go biased keep kept gate cand written squashed out.
              co_concat ops x h = Inr xh \<and> co_matMul ops xh W = Inr weighted
            \<and> co_add ops weighted b = Inr gates \<and> co_split4 ops gates = Inr (gi, gj, gf, go)
            \<and> co_add ops gf fb = Inr biased \<and> co_sigmoid ops biased = Inr keep
            \<and> co_mul ops c keep = Inr kept
            \<and> co_sigmoid ops gi = Inr gate \<and> co_tanh ops gj = Inr cand
            \<and> co_mul ops gate cand = Inr written
            \<and> co_add ops kept written = Inr c'
            \<and> co_tanh ops c' = Inr squashed \<and> co_sigmoid ops go = Inr out
            \<and> co_mul ops squashed out = Inr h')"
    by (rule basicLSTMCell_Inr)
next
  assume "continueSequence lib sequence steps temperature s = (Inr outputs, s')"
  then show "\<exists>inputs one cs hs.
               dl_toTensor lib
                 \<lparr> numSteps = totalQuantizedSteps sequence, minPitch = 48, maxPitch = 84 \<rparr>
                 sequence = Inr inputs
             \<and> dl_scalar lib (Num 1) = Inr one
             \<and> (\<forall>j. int j < int (fst (dl_shape2D lib inputs)) + steps \<longrightarrow>
                  (\<exists>x1 W1 b1 W2 b2 c1 h1 c2 h2 c1' h1' c2' h2'.
                     cs j = [c1, c2] \<and> hs j = [h1, h2]
                   \<and> deref s (lstmKernel1 (self s)) = Inr W1
                   \<and> deref s (lstmBias1 (self s)) = Inr b1
                   \<and> deref s (lstmKernel2 (self s)) = Inr W2
                   \<and> deref s (lstmBias2 (self s)) = Inr b2
                   \<and> basicLSTMCell ops one W1 b1 x1 c1 h1 = Inr (c1', h1')
                   \<and> basicLSTMCell ops one W2 b2 h1' c2 h2 = Inr (c2', h2')
                   \<and> cs (Suc j) = [c1', c2'] \<and> hs (Suc j) = [h1', h2']
                   \<and> (if j < fst (dl_shape2D lib inputs)
                       then \<exists>sl. dl_slice lib inputs [j, 0] [1, snd (dl_shape2D lib inputs)] = Inr sl
                                \<and> dl_as2D lib sl 1 (snd (dl_shape2D lib inputs)) = Inr x1
                       else \<exists>w m b lg u a oh.
                              deref s (lstmFcW (self s)) = Inr w \<and> dl_matMul lib h2 w = Inr m
                            \<and> deref s (lstmFcB (self s)) = Inr b \<and> dl_add lib m b = Inr lg
                            \<and> fst (sampledOutput lib temperature lg u) = Inr a
                            \<and> dl_oneHot lib a (snd (dl_shape2D lib inputs)) = Inr oh
                            \<and> dl_toFloat lib oh = Inr x1)))"
    by (rule run_applies_cells [OF assms])
next
  show "continueSequence
           (lib\<lparr>dl_basicLSTMCell := \<lambda>fb. if dl_scalar lib (Num 1) = Inr fb then dl_basicLSTMCell lib fb
                                           else (\<lambda>W b x c h. Inl ShapeError)\<rparr>)
           sequence steps temperature s
         = continueSequence lib sequence steps temperature s"
    by (rule continueSequence_cong)
       (simp_all add: sampledOutput_def argMaxBranch_def multinomialBranch_def fun_eq_iff
          cong: option.case_cong if_cong)
qed

theorem two_layer_lstm_step_witness:
  "dl_basicLSTMCell (refLib (exWeb exBias)) = basicLSTMCell refOps
   \<and> dl_multiRNNCell (refLib (exWeb exBias)) = multiRNNCell
   \<and> co_add refOps (Mat 1 [[3]]) (Scalar 1) = Inr (Mat 1 [[4]])
   \<and> basicLSTMCell refOps (Scalar 1) (Mat 4 [[1, 2, 3, 4], [0, 0, 0, 0]]) (Vec [0, 0, 0, 0])
       (Mat 1 [[1]]) (Mat 1 [[1]]) (Mat 1 [[0]])
     = Inr (Mat 1 [[sigmoid 4 + sigmoid 1 * tanh 2]],
            Mat 1 [[tanh (sigmoid 4 + sigmoid 1 * tanh 2) * sigmoid 4]])
   \<and> continueSequence (refLib (exWeb exBias)) exSeq 2 None (exState exBias [])
     = (Inr [Num 7, Num 7], exState exBias [])
   \<and> (\<exists>inputs one cs hs.
         dl_toTensor (refLib (exWeb exBias))
           \<lparr> numSteps = totalQuantizedSteps exSeq, minPitch = 48, maxPitch = 84 \<rparr> exSeq
         = Inr inputs
       \<and> dl_scalar (refLib (exWeb exBias)) (Num 1) = Inr one
       \<and> (\<forall>j. int j < int (fst (dl_shape2D (refLib (exWeb exBias)) inputs)) + 2 \<longrightarrow>
            (\<exists>x1 W1 b1 W2 b2 c1 h1 c2 h2 c1' h1' c2' h2'.
               cs j = [c1, c2] \<and> hs j = [h1, h2]
             \<and> deref (exState exBias []) (lstmKernel1 (self (exState exBias []))) = Inr W1
             \<and> deref (exState exBias []) (lstmBias1 (self (exState exBias []))) = Inr b1
             \<and> deref (exState exBias []) (lstmKernel2 (self (exState exBias []))) = Inr W2
             \<and> deref (exState exBias []) (lstmBias2 (self (exState exBias []))) = Inr b2
             \<and> basicLSTMCell refOps one W1 b1 x1 c1 h1 = Inr (c1', h1')
             \<and> basicLSTMCell refOps one W2 b2 h1' c2 h2 = Inr (c2', h2')
             \<and> cs (Suc j) = [c1', c2'] \<and> hs (Suc j) = [h1', h2']
             \<and> (if j < fst (dl_shape2D (refLib (exWeb exBias)) inputs)
                 then \<exists>sl. dl_slice (refLib (exWeb exBias)) inputs [j, 0]
                              [1, snd (dl_shape2D (refLib (exWeb exBias)) inputs)] = Inr sl
                          \<and> dl_as2D (refLib (exWeb exBias)) sl 1
                              (snd (dl_shape2D (refLib (exWeb exBias)) inputs)) = Inr x1
                 else \<exists>w m b lg u a oh.
                        deref (exState exBias []) (lstmFcW (self (exState exBias []))) = Inr w
                      \<and> dl_matMul (refLib (exWeb exBias)) h2 w = Inr m
                      \<and> deref (exState exBias []) (lstmFcB (self (exState exBias []))) = Inr b
                      \<and> dl_add (refLib (exWeb exBias)) m b = Inr lg
                      \<and> fst (sampledOutput (refLib (exWeb exBias)) None lg u) = Inr a
                      \<and> dl_oneHot (refLib (exWeb exBias)) a
                          (snd (dl_shape2D (refLib (exWeb exBias)) inputs)) = Inr oh
                      \<and> dl_toFloat (refLib (exWeb exBias)) oh = Inr x1))))"
proof -
  let ?L = "refLib (exWeb exBias)" and ?st = "exState exBias []"
  have h1: "dl_basicLSTMCell ?L = basicLSTMCell refOps" and h2: "dl_multiRNNCell ?L = multiRNNCell"
    by (simp_all add: refLib_def)
  note th = two_layer_lstm_step [OF h1 h2]
  have fbias: "co_add refOps (Mat 1 [[3]]) (Scalar 1) = Inr (Mat 1 [[4]])"
    unfolding refOps_sel by (rule ex_cell_ops)
  have cellv: "basicLSTMCell refOps (Scalar 1) (Mat 4 [[1, 2, 3, 4], [0, 0, 0, 0]]) (Vec [0, 0, 0, 0])
       (Mat 1 [[1]]) (Mat 1 [[1]]) (Mat 1 [[0]])
     = Inr (Mat 1 [[sigmoid 4 + sigmoid 1 * tanh 2]],
            Mat 1 [[tanh (sigmoid 4 + sigmoid 1 * tanh 2) * sigmoid 4]])"
  proof (rule iffD2 [OF th [THEN conjunct1]])
    show "\<exists>xh weighted gates gi gj gf go biased keep kept gate cand written squashed out.
              co_concat refOps (Mat 1 [[1]]) (Mat 1 [[0]]) = Inr xh
            \<and> co_matMul refOps xh (Mat 4 [[1, 2, 3, 4], [0, 0, 0, 0]]) = Inr weighted
            \<and> co_add refOps weighted (Vec [0, 0, 0, 0]) = Inr gates
            \<and> co_split4 refOps gates = Inr (gi, gj, gf, go)
            \<and> co_add refOps gf (Scalar 1) = Inr biased \<and> co_sigmoid refOps biased = Inr keep
            \<and> co_mul refOps (Mat 1 [[1]]) keep = Inr kept
            \<and> co_sigmoid refOps gi = Inr gate \<and> co_tanh refOps gj = Inr cand
            \<and> co_mul refOps gate cand = Inr written
            \<and> co_add refOps kept written = Inr (Mat 1 [[sigmoid 4 + sigmoid 1 * tanh 2]])
            \<and> co_tanh refOps (Mat 1 [[sigmoid 4 + sigmoid 1 * tanh 2]]) = Inr squashed
            \<and> co_sigmoid refOps go = Inr out
            \<and> co_mul refOps squashed out
               = Inr (Mat 1 [[tanh (sigmoid 4 + sigmoid 1 * tanh 2) * sigmoid 4]])"
      unfolding refOps_sel
      by (rule exI [of _ "Mat 2 [[1, 0]]"], rule exI [of _ "Mat 4 [[1, 2, 3, 4]]"],
          rule exI [of _ "Mat 4 [[1, 2, 3, 4]]"], rule exI [of _ "Mat 1 [[1]]"],
          rule exI [of _ "Mat 1 [[2]]"], rule exI [of _ "Mat 1 [[3]]"],
          rule exI [of _ "Mat 1 [[4]]"], rule exI [of _ "Mat 1 [[4]]"],
          rule exI [of _ "Mat 1 [[sigmoid 4]]"], rule exI [of _ "Mat 1 [[sigmoid 4]]"],
          rule exI [of _ "Mat 1 [[sigmoid 1]]"], rule exI [of _ "Mat 1 [[tanh 2]]"],
          rule exI [of _ "Mat 1 [[sigmoid 1 * tanh 2]]"],
          rule exI [of _ "Mat 1 [[tanh (sigmoid 4 + sigmoid 1 * tanh 2)]]"],
          rule exI [of _ "Mat 1 [[sigmoid 4]]"], intro conjI)
         (rule ex_cell_ops ex_cell_matMul ex_cell_split4)+
  qed
  have "falsy None" by (simp add: falsy_def)
  from ex_run_falsy [OF this, of exBias "exWeb exBias" "[]"]
  have run: "continueSequence ?L exSeq 2 None ?st = (Inr [Num 7, Num 7], ?st)"
    by (simp add: argmax_exBias length_exBias)
  note tr = mp [OF th [THEN conjunct2, THEN conjunct1] run]
  show ?thesis
    by (intro conjI) (rule h1, rule h2, rule fbias, rule cellv, rule run, rule tr)
qed

text \<open>
  C3. If the temperature is undefined or exactly 0, every self-feeding step chooses the
  next index by arg-max through the explicit branch: the sampled tensor is
  \<open>logits.argMax(1).as1D()\<close>, every output of a call that returns is the scalar read
  back from the arg-max of the logits \<open>h[1].matMul(lstmFcW).add(lstmFcB)\<close>, and the
  logits are never divided by the temperature: whatever the library's division and
  multinomial draw would do, even throw, the outcome of the call is the same.
\<close>

theorem falsy_temperature_argmax:
  assumes "temperature = None \<or> temperature = Some (Num 0)"
  shows "sampledOutput lib temperature logits s
         = (case dl_argMax lib logits 1 of Inl e \<Rightarrow> Inl e | Inr am \<Rightarrow> dl_as1D lib am, s)
       \<and> (continueSequence lib sequence steps temperature s = (Inr outputs, s') \<longrightarrow>
            (\<forall>k < length outputs. \<exists>h1 w m b lg am a sc.
                deref s (lstmFcW (self s)) = Inr w \<and> dl_matMul lib h1 w = Inr m
              \<and> deref s (lstmFcB (self s)) = Inr b \<and> dl_add lib m b = Inr lg
              \<and> dl_argMax lib lg 1 = Inr am \<and> dl_as1D lib am = Inr a
              \<and> dl_asScalar lib a = Inr sc \<and> dl_scalarData lib sc = Inr (outputs ! k)))
       \<and> continueSequence (lib\<lparr>dl_div := d, dl_multinomial := mn\<rparr>) sequence steps temperature s
         = continueSequence lib sequence steps temperature s"
proof -
  from assms have f: "falsy temperature" by (auto simp: falsy_def)
  have "sampledOutput lib temperature logits s
         = (case dl_argMax lib logits 1 of Inl e \<Rightarrow> Inl e | Inr am \<Rightarrow> dl_as1D lib am, s)"
    by (rule sampledOutput_argMax [OF f])
  moreover have "\<forall>k < length outputs. \<exists>h1 w m b lg am a sc.
                deref s (lstmFcW (self s)) = Inr w \<and> dl_matMul lib h1 w = Inr m
              \<and> deref s (lstmFcB (self s)) = Inr b \<and> dl_add lib m b = Inr lg
              \<and> dl_argMax lib lg 1 = Inr am \<and> dl_as1D lib am = Inr a
              \<and> dl_asScalar lib a = Inr sc \<and> dl_scalarData lib sc = Inr (outputs ! k)"
    if "continueSequence lib sequence steps temperature s = (Inr outputs, s')"
    using argMax_outputs [OF f that] by blast
  moreover have "continueSequence (lib\<lparr>dl_div := d, dl_multinomial := mn\<rparr>) sequence steps temperature s
         = continueSequence lib sequence steps temperature s"
    by (rule falsy_ignores_sampling [OF f])
  ultimately show ?thesis by blast
qed

theorem falsy_temperature_argmax_witness:
  "(Some (Num 0) = (None :: number option) \<or> Some (Num 0) = Some (Num 0))
   \<and> sampledOutput
       ((refLib (exWeb exBias))\<lparr>dl_div := failingDiv, dl_multinomial := failingMultinomial\<rparr>)
       (Some (Num 0)) (Mat 38 [exBias]) (exState exBias [3, 9])
     = (Inr (Vec [7]), exState exBias [3, 9])
   \<and> continueSequence
       ((refLib (exWeb exBias))\<lparr>dl_div := failingDiv, dl_multinomial := failingMultinomial\<rparr>)
       exSeq 2 (Some (Num 0)) (exState exBias [3, 9])
     = (Inr [Num 7, Num 7], exState exBias [3, 9])
   \<and> (\<exists>h1 w m b lg am a sc.
         deref (exState exBias [3, 9]) (lstmFcW (self (exState exBias [3, 9]))) = Inr w
       \<and> ref_matMul h1 w = Inr m
       \<and> deref (exState exBias [3, 9]) (lstmFcB (self (exState exBias [3, 9]))) = Inr b
       \<and> ref_add m b = Inr lg
       \<and> ref_argMax lg 1 = Inr am
       \<and> ref_as1D am = Inr a
       \<and> ref_asScalar a = Inr sc
       \<and> ref_scalarData sc = Inr (Num 7))"
proof -
  let ?L = "refLib (exWeb exBias)" and ?st = "exState exBias [3, 9]"
  let ?FL = "?L\<lparr>dl_div := failingDiv, dl_multinomial := failingMultinomial\<rparr>"
  have h: "Some (Num 0) = (None :: number option) \<or> Some (Num 0) = Some (Num 0)" by simp
  have f: "falsy (Some (Num 0))" by (simp add: falsy_def)
  from ex_run_falsy [OF f, of exBias "exWeb exBias" "[3, 9]"]
  have run: "continueSequence ?L exSeq 2 (Some (Num 0)) ?st = (Inr [Num 7, Num 7], ?st)"
    by (simp add: argmax_exBias length_exBias)
  note th = falsy_temperature_argmax [OF h, where s = ?st and sequence = exSeq and steps = 2
      and d = failingDiv and mn = failingMultinomial and logits = "Mat 38 [exBias]"
      and outputs = "[Num 7, Num 7]" and s' = ?st]
  from th [where lib = ?FL]
  have a: "sampledOutput ?FL (Some (Num 0)) (Mat 38 [exBias]) ?st = (Inr (Vec [7]), ?st)"
    using length_exBias by (simp add: refLib_def ref_as1D_def argmax_exBias)
  from th [where lib = ?L] run
  have b: "continueSequence ?FL exSeq 2 (Some (Num 0)) ?st = (Inr [Num 7, Num 7], ?st)"
    by simp
  from th [where lib = ?FL] b
  have "\<forall>k < length [Num 7, Num 7 :: number]. \<exists>h1 w m b lg am a sc.
         deref ?st (lstmFcW (self ?st)) = Inr w \<and> dl_matMul ?FL h1 w = Inr m
       \<and> deref ?st (lstmFcB (self ?st)) = Inr b \<and> dl_add ?FL m b = Inr lg
       \<and> dl_argMax ?FL lg 1 = Inr am \<and> dl_as1D ?FL am = Inr a
       \<and> dl_asScalar ?FL a = Inr sc \<and> dl_scalarData ?FL sc = Inr ([Num 7, Num 7] ! k)"
    by blast
  from this [rule_format, of 0]
  have c: "\<exists>h1 w m b lg am a sc.
         deref ?st (lstmFcW (self ?st)) = Inr w \<and> ref_matMul h1 w = Inr m
       \<and> deref ?st (lstmFcB (self ?st)) = Inr b \<and> ref_add m b = Inr lg
       \<and> ref_argMax lg 1 = Inr am \<and> ref_as1D am = Inr a
       \<and> ref_asScalar a = Inr sc \<and> ref_scalarData sc = Inr (Num 7)"
    by (simp add: refLib_def)
  from h a b c show ?thesis by blast
qed

text \<open>
  C4. With the temperature unset or 0, a fixed weight set and a fixed melody, two calls
  of continueSequence with the same steps return identical results: the first call
  leaves the state as it was, and a call in that state returns the same result whatever
  the random generator holds by then.
\<close>

theorem argmax_deterministic:
  assumes "temperature = None \<or> temperature = Some (Num 0)"
    and "continueSequence lib sequence steps temperature s = (r, s')"
  shows "s' = s
       \<and> continueSequence lib sequence steps temperature (s'\<lparr>rng := g\<rparr>) = (r, s'\<lparr>rng := g\<rparr>)"
proof -
  from assms(1) have f: "falsy temperature" by (auto simp: falsy_def)
  note pr = pureRead_continueSequence [OF f, of lib sequence steps]
  from pureReadD [OF pr, where s = s] assms(2)
  have "s' = s" "r = fst (continueSequence lib sequence steps temperature s)"
    by simp_all
  with pureReadD2 [OF pr, where s = s and g = g] show ?thesis by simp
qed

theorem argmax_deterministic_witness:
  "((None :: number option) = None \<or> (None :: number option) = Some (Num 0))
   \<and> continueSequence (refLib (exWeb exBias)) exSeq 2 None (exState exBias [3, 9])
     = (Inr [Num 7, Num 7], exState exBias [3, 9])
   \<and> exState exBias [3, 9] = exState exBias [3, 9]
   \<and> continueSequence (refLib (exWeb exBias)) exSeq 2 None ((exState exBias [3, 9])\<lparr>rng := [5]\<rparr>)
     = (Inr [Num 7, Num 7], (exState exBias [3, 9])\<lparr>rng := [5]\<rparr>)"
proof -
  have h: "(None :: number option) = None \<or> (None :: number option) = Some (Num 0)" by simp
  have "falsy None" by (simp add: falsy_def)
  from ex_run_falsy [OF this, of exBias "exWeb exBias" "[3, 9]"]
  have run: "continueSequence (refLib (exWeb exBias)) exSeq 2 None (exState exBias [3, 9])
     = (Inr [Num 7, Num 7], exState exBias [3, 9])"
    by (simp add: argmax_exBias length_exBias)
  from argmax_deterministic [OF h run, where g = "[5]"] h run show ?thesis by blast
qed


text \<open>
  C6. The claim: \<open>dispose()\<close> releases all loaded parameter tensors, and continueSequence
  after it fails with \<open>UseAfterDisposeError\<close>. The code at a model that was constructed
  and initialized: \<open>rawVars\<close> was never assigned, so \<open>dispose()\<close> throws a \<open>TypeError\<close>,
  no tensor is released, and continueSequence afterwards returns its samples.
\<close>

theorem dispose_then_continue:
  "dispose (exState exBias []) = (Inl TypeError, exState exBias [])
   \<and> continueSequence (refLib (exWeb exBias)) exSeq 2 None (snd (dispose (exState exBias [])))
     = (Inr [Num 7, Num 7], exState exBias [])"
proof -
  have d: "dispose (exState exBias []) = (Inl TypeError, exState exBias [])"
    unfolding exState_def newState_def by (rule dispose_after_initialize)
  have "falsy None" by (simp add: falsy_def)
  from ex_run_falsy [OF this, of exBias "exWeb exBias" "[]"] d show ?thesis
    by (simp add: argmax_exBias length_exBias)
qed




text \<open>
  C8. A call of continueSequence never modifies a parameter tensor: whatever the
  melody, the steps (0 among them) and the temperature, and whether the call returns or
  throws, the fields of the model and every tensor object are afterwards what they
  were.
\<close>

theorem parameters_unchanged:
  "self (snd (continueSequence lib sequence steps temperature s)) = self s
   \<and> heap (snd (continueSequence lib sequence steps temperature s)) = heap s"
  using frame_continueSequence [of lib sequence steps temperature] by (simp add: frame_def)

text \<open>
  C9, as amended. continueSequence does not validate that the temperature is positive:
  for every temperature other than 0 and \<open>NaN\<close>, negative values and the infinities
  included, the stochastic branch is taken: the sampled tensor is
  \<open>dl.multinomial(logits.div(dl.scalar(temperature)), 1).as1D()\<close>, every output of a
  call that returns is the scalar read back from a draw on the logits divided by that
  temperature, and arg-max is not called; only the falsy values, which are undefined, 0
  and \<open>NaN\<close>, select the arg-max branch, and then neither the division nor the draw is
  called.
\<close>

theorem temperature_truthiness:
  "(t \<noteq> Num 0 \<longrightarrow> t \<noteq> NaN \<longrightarrow>
      sampledOutput lib (Some t) logits s
      = (case dl_scalar lib t of
           Inl e \<Rightarrow> (Inl e, s)
         | Inr temp \<Rightarrow>
             (case dl_div lib logits temp of
                Inl e \<Rightarrow> (Inl e, s)
              | Inr scaled \<Rightarrow>
                  (case dl_multinomial lib scaled 1 (rng s) of
                     (Inl e, g') \<Rightarrow> (Inl e, s\<lparr>rng := g'\<rparr>)
                   | (Inr r, g') \<Rightarrow> (dl_as1D lib r, s\<lparr>rng := g'\<rparr>))))
      \<and> (continueSequence lib sequence steps (Some t) s = (Inr outputs, s') \<longrightarrow>
           (\<forall>k < length outputs. \<exists>h1 w m b lg temp scaled g r g' a sc.
               deref s (lstmFcW (self s)) = Inr w \<and> dl_matMul lib h1 w = Inr m
             \<and> deref s (lstmFcB (self s)) = Inr b \<and> dl_add lib m b = Inr lg
             \<and> dl_scalar lib t = Inr temp \<and> dl_div lib lg temp = Inr scaled
             \<and> dl_multinomial lib scaled 1 g = (Inr r, g') \<and> dl_as1D lib r = Inr a
             \<and> dl_asScalar lib a = Inr sc \<and> dl_scalarData lib sc = Inr (outputs ! k)))
      \<and> continueSequence (lib\<lparr>dl_argMax := am\<rparr>) sequence steps (Some t) s
        = continueSequence lib sequence steps (Some t) s)
   \<and> (temperature = None \<or> temperature = Some (Num 0) \<or> temperature = Some NaN \<longrightarrow>
      sampledOutput lib temperature logits s
      = (case dl_argMax lib logits 1 of Inl e \<Rightarrow> Inl e | Inr r \<Rightarrow> dl_as1D lib r, s)
      \<and> continueSequence (lib\<lparr>dl_div := d, dl_multinomial := mn\<rparr>) sequence steps temperature s
        = continueSequence lib sequence steps temperature s)"
proof (intro conjI impI)
  assume "t \<noteq> Num 0" "t \<noteq> NaN"
  then have tb: "toBoolean t" by (cases t) auto
  then show "sampledOutput lib (Some t) logits s
      = (case dl_scalar lib t of
           Inl e \<Rightarrow> (Inl e, s)
         | Inr temp \<Rightarrow>
             (case dl_div lib logits temp of
                Inl e \<Rightarrow> (Inl e, s)
              | Inr scaled \<Rightarrow>
                  (case dl_multinomial lib scaled 1 (rng s) of
                     (Inl e, g') \<Rightarrow> (Inl e, s\<lparr>rng := g'\<rparr>)
                   | (Inr r, g') \<Rightarrow> (dl_as1D lib r, s\<lparr>rng := g'\<rparr>))))"
    by (rule sampledOutput_multinomial)
  from tb show "continueSequence (lib\<lparr>dl_argMax := am\<rparr>) sequence steps (Some t) s
        = continueSequence lib sequence steps (Some t) s"
    by (rule truthy_ignores_argMax)
  assume "continueSequence lib sequence steps (Some t) s = (Inr outputs, s')"
  from multinomial_outputs [OF tb this]
  show "\<forall>k < length outputs. \<exists>h1 w m b lg temp scaled g r g' a sc.
               deref s (lstmFcW (self s)) = Inr w \<and> dl_matMul lib h1 w = Inr m
             \<and> deref s (lstmFcB (self s)) = Inr b \<and> dl_add lib m b = Inr lg
             \<and> dl_scalar lib t = Inr temp \<and> dl_div lib lg temp = Inr scaled
             \<and> dl_multinomial lib scaled 1 g = (Inr r, g') \<and> dl_as1D lib r = Inr a
             \<and> dl_asScalar lib a = Inr sc \<and> dl_scalarData lib sc = Inr (outputs ! k)"
    by blast
next
  assume "temperature = None \<or> temperature = Some (Num 0) \<or> temperature = Some NaN"
  then have f: "falsy temperature" by (auto simp: falsy_def)
  then show "sampledOutput lib temperature logits s
      = (case dl_argMax lib logits 1 of Inl e \<Rightarrow> Inl e | Inr r \<Rightarrow> dl_as1D lib r, s)"
    by (rule sampledOutput_argMax)
  from f show "continueSequence (lib\<lparr>dl_div := d, dl_multinomial := mn\<rparr>) sequence steps temperature s
        = continueSequence lib sequence steps temperature s"
    by (rule falsy_ignores_sampling)
qed

theorem temperature_truthiness_witness:
  "Num (- 1) \<noteq> Num 0 \<and> Num (- 1) \<noteq> NaN
   \<and> sampledOutput ((refLib (exWeb exBias))\<lparr>dl_multinomial := modeMultinomial\<rparr>)
       (Some (Num (- 1))) (Mat 38 [exBias]) (exState exBias [3, 100])
     = (Inr (Vec [0]), exState exBias [3, 100])
   \<and> sampledOutput ((refLib (exWeb exBias))\<lparr>dl_multinomial := modeMultinomial\<rparr>)
       (Some (Num 1)) (Mat 38 [exBias]) (exState exBias [3, 100])
     = (Inr (Vec [7]), exState exBias [3, 100])
   \<and> continueSequence
       ((refLib (exWeb exBias))\<lparr>dl_multinomial := modeMultinomial, dl_argMax := failingArgMax\<rparr>)
       exSeq 2 (Some (Num (- 1))) (exState exBias [3, 100])
     = (Inr [Num 0, Num 0], exState exBias [3, 100])
   \<and> (\<exists>h1 w m b lg temp scaled g r g' a sc.
         deref (exState exBias [3, 100]) (lstmFcW (self (exState exBias [3, 100]))) = Inr w
       \<and> dl_matMul (refLib (exWeb exBias)) h1 w = Inr m
       \<and> deref (exState exBias [3, 100]) (lstmFcB (self (exState exBias [3, 100]))) = Inr b
       \<and> dl_add (refLib (exWeb exBias)) m b = Inr lg
       \<and> dl_scalar (refLib (exWeb exBias)) (Num (- 1)) = Inr temp
       \<and> dl_div (refLib (exWeb exBias)) lg temp = Inr scaled
       \<and> modeMultinomial scaled 1 g = (Inr r, g')
       \<and> dl_as1D (refLib (exWeb exBias)) r = Inr a
       \<and> dl_asScalar (refLib (exWeb exBias)) a = Inr sc
       \<and> dl_scalarData (refLib (exWeb exBias)) sc = Inr (Num 0))
   \<and> continueSequence ((refLib (exWeb exBias))\<lparr>dl_div := divOnlyBy (- 1), dl_argMax := failingArgMax\<rparr>)
       exSeq 2 (Some (Num (- 1))) (exState exBias [3, 100])
     = (Inr [Num 3, Num 37], exState exBias [])
   \<and> continueSequence ((refLib (exWeb exBias))\<lparr>dl_div := divOnlyBy 2\<rparr>)
       exSeq 2 (Some (Num (- 1))) (exState exBias [3, 100])
     = (Inl ShapeError, exState exBias [3, 100])
   \<and> (Some NaN = (None :: number option) \<or> Some NaN = Some (Num 0) \<or> Some NaN = Some NaN)
   \<and> sampledOutput
       ((refLib (exWeb exBias))\<lparr>dl_div := failingDiv, dl_multinomial := failingMultinomial\<rparr>)
       (Some NaN) (Mat 38 [exBias]) (exState exBias [3, 100])
     = (Inr (Vec [7]), exState exBias [3, 100])
   \<and> continueSequence
       ((refLib (exWeb exBias))\<lparr>dl_div := failingDiv, dl_multinomial := failingMultinomial\<rparr>)
       exSeq 2 (Some NaN) (exState exBias [3, 100])
     = (Inr [Num 7, Num 7], exState exBias [3, 100])"
proof -
  let ?W = "exWeb exBias" and ?st = "exState exBias [3, 100]"
  let ?MD = "(refLib ?W)\<lparr>dl_multinomial := modeMultinomial\<rparr>"
  let ?MD' = "(refLib ?W)\<lparr>dl_multinomial := modeMultinomial, dl_argMax := failingArgMax\<rparr>"
  let ?DL = "(refLib ?W)\<lparr>dl_div := divOnlyBy (- 1)\<rparr>"
  let ?FL = "(refLib ?W)\<lparr>dl_div := failingDiv, dl_multinomial := failingMultinomial\<rparr>"
  have h1: "Num (- 1) \<noteq> Num 0" and h2: "Num (- 1) \<noteq> NaN"
    and h3: "Some NaN = (None :: number option) \<or> Some NaN = Some (Num 0) \<or> Some NaN = Some NaN"
    by simp_all
  have n0: "(- 1 :: real) \<noteq> 0" "(1 :: real) \<noteq> 0" "(2 :: real) \<noteq> - 1" by simp_all
  have len: "0 < length exBias" by (simp add: length_exBias)
  have md: "?MD = probeLib ?W ref_toTensor ref_div modeMultinomial ref_argMax"
    and md': "?MD' = probeLib ?W ref_toTensor ref_div modeMultinomial failingArgMax"
    and dl: "?DL = probeLib ?W ref_toTensor (divOnlyBy (- 1)) ref_multinomial ref_argMax"
    and dl': "?DL\<lparr>dl_argMax := failingArgMax\<rparr>
              = probeLib ?W ref_toTensor (divOnlyBy (- 1)) ref_multinomial failingArgMax"
    and d2: "(refLib ?W)\<lparr>dl_div := divOnlyBy 2\<rparr>
              = probeLib ?W ref_toTensor (divOnlyBy 2) ref_multinomial ref_argMax"
    by (simp_all add: probeLib_def refLib_def)
  have tt: "ref_toTensor \<lparr>numSteps = totalQuantizedSteps exSeq, minPitch = 48, maxPitch = 84\<rparr> exSeq
            = Inr (Mat 38 [oneHotRow 38 14])"
    using ex_toTensor by (simp add: exSeq_def)
  note th = temperature_truthiness [where t = "Num (- 1)" and sequence = exSeq and steps = 2
      and s = ?st and temperature = "Some NaN" and d = failingDiv and mn = failingMultinomial
      and am = failingArgMax and logits = "Mat 38 [exBias]"]
  have a: "sampledOutput ?MD (Some (Num (- 1))) (Mat 38 [exBias]) ?st = (Inr (Vec [0]), ?st)"
    using probe_mode [OF n0(1), of ?W ref_toTensor ref_argMax exBias "[3, 100]"]
    by (simp add: md length_exBias argmax_exBias_negated)
  have a1: "sampledOutput ?MD (Some (Num 1)) (Mat 38 [exBias]) ?st = (Inr (Vec [7]), ?st)"
    using probe_mode [OF n0(2), of ?W ref_toTensor ref_argMax exBias "[3, 100]"]
    by (simp add: md length_exBias argmax_exBias)
  have so: "sampledOutput (probeLib ?W ref_toTensor ref_div modeMultinomial ref_argMax)
              (Some (Num (- 1))) (Mat (length exBias) [exBias]) ?st = (Inr (Vec [0]), ?st)"
    using a by (simp add: md length_exBias)
  have r0: "continueSequence ?MD exSeq 2 (Some (Num (- 1))) ?st = (Inr [Num 0, Num 0], ?st)"
    unfolding md by (rule probe_run [OF tt _ len so so]) simp
  from th [where lib = ?MD] h1 h2 r0
  have b: "continueSequence ?MD' exSeq 2 (Some (Num (- 1))) ?st = (Inr [Num 0, Num 0], ?st)"
    by simp
  from th [where lib = ?MD' and outputs = "[Num 0, Num 0]" and s' = ?st] h1 h2 b
  have "\<forall>k < length [Num 0, Num 0 :: number]. \<exists>h1 w m b lg temp scaled g r g' a sc.
         deref ?st (lstmFcW (self ?st)) = Inr w \<and> dl_matMul ?MD' h1 w = Inr m
       \<and> deref ?st (lstmFcB (self ?st)) = Inr b \<and> dl_add ?MD' m b = Inr lg
       \<and> dl_scalar ?MD' (Num (- 1)) = Inr temp \<and> dl_div ?MD' lg temp = Inr scaled
       \<and> dl_multinomial ?MD' scaled 1 g = (Inr r, g') \<and> dl_as1D ?MD' r = Inr a
       \<and> dl_asScalar ?MD' a = Inr sc \<and> dl_scalarData ?MD' sc = Inr ([Num 0, Num 0] ! k)"
    by blast
  from this [rule_format, of 0]
  have c: "\<exists>h1 w m b lg temp scaled g r g' a sc.
         deref ?st (lstmFcW (self ?st)) = Inr w \<and> dl_matMul (refLib ?W) h1 w = Inr m
       \<and> deref ?st (lstmFcB (self ?st)) = Inr b \<and> dl_add (refLib ?W) m b = Inr lg
       \<and> dl_scalar (refLib ?W) (Num (- 1)) = Inr temp \<and> dl_div (refLib ?W) lg temp = Inr scaled
       \<and> modeMultinomial scaled 1 g = (Inr r, g') \<and> dl_as1D (refLib ?W) r = Inr a
       \<and> dl_asScalar (refLib ?W) a = Inr sc \<and> dl_scalarData (refLib ?W) sc = Inr (Num 0)"
    by simp
  have so1: "sampledOutput (probeLib ?W ref_toTensor (divOnlyBy (- 1)) ref_multinomial ref_argMax)
               (Some (Num (- 1))) (Mat (length exBias) [exBias]) ?st
             = (Inr (Vec [3]), exState exBias [100])"
    using probe_divOnlyBy [OF n0(1) len, of ?W ref_toTensor ref_argMax 3 "[100]"]
    by (simp add: length_exBias)
  have so2: "sampledOutput (probeLib ?W ref_toTensor (divOnlyBy (- 1)) ref_multinomial ref_argMax)
               (Some (Num (- 1))) (Mat (length exBias) [exBias]) (exState exBias [100])
             = (Inr (Vec [37]), exState exBias [])"
    using probe_divOnlyBy [OF n0(1) len, of ?W ref_toTensor ref_argMax 100 "[]"]
    by (simp add: length_exBias)
  have r1: "continueSequence ?DL exSeq 2 (Some (Num (- 1))) ?st = (Inr [Num 3, Num 37], exState exBias [])"
    unfolding dl by (rule probe_run [OF tt _ len so1 so2]) simp
  from th [where lib = ?DL] h1 h2 r1
  have d: "continueSequence ((refLib ?W)\<lparr>dl_div := divOnlyBy (- 1), dl_argMax := failingArgMax\<rparr>)
       exSeq 2 (Some (Num (- 1))) ?st = (Inr [Num 3, Num 37], exState exBias [])"
    by simp
  have e: "continueSequence ((refLib ?W)\<lparr>dl_div := divOnlyBy 2\<rparr>) exSeq 2 (Some (Num (- 1))) ?st
       = (Inl ShapeError, ?st)"
  proof -
    have so3: "sampledOutput (probeLib ?W ref_toTensor (divOnlyBy 2) ref_multinomial ref_argMax)
                 (Some (Num (- 1))) (Mat (length exBias) [exBias]) ?st = (Inl ShapeError, ?st)"
      by (rule probe_divOnlyBy_other [OF n0(1) n0(3)])
    show ?thesis
      unfolding d2 by (rule probe_run_fails [OF tt _ len so3]) simp
  qed
  from th [where lib = ?FL] h3
  have f: "sampledOutput ?FL (Some NaN) (Mat 38 [exBias]) ?st = (Inr (Vec [7]), ?st)"
    using length_exBias by (simp add: refLib_def ref_as1D_def argmax_exBias)
  have "falsy (Some NaN)" by (simp add: falsy_def)
  from ex_run_falsy [OF this, of exBias ?W "[3, 100]"]
  have r2: "continueSequence (refLib ?W) exSeq 2 (Some NaN) ?st = (Inr [Num 7, Num 7], ?st)"
    by (simp add: argmax_exBias length_exBias)
  from th [where lib = "refLib ?W"] h3 r2
  have g: "continueSequence ?FL exSeq 2 (Some NaN) ?st = (Inr [Num 7, Num 7], ?st)"
    by simp
  from h1 h2 h3 a a1 b c d e f g show ?thesis by blast
qed

text \<open>
  C9, as stated, fails at the temperature \<open>NaN\<close>, which is not 0: the call returns the
  arg-max samples although the division of the library always throws, so the logits
  were not divided and the stochastic branch was not taken.
\<close>

theorem nan_temperature_takes_argmax:
  "continueSequence ((refLib (exWeb exBias))\<lparr>dl_div := failingDiv\<rparr>) exSeq 2 (Some NaN)
     (exState exBias [3, 9])
   = (Inr [Num 7, Num 7], exState exBias [3, 9])"
proof -
  have f: "falsy (Some NaN)" by (simp add: falsy_def)
  have "continueSequence ((refLib (exWeb exBias))\<lparr>dl_div := failingDiv\<rparr>) exSeq 2 (Some NaN)
     (exState exBias [3, 9])
     = continueSequence (refLib (exWeb exBias)) exSeq 2 (Some NaN) (exState exBias [3, 9])"
    by (rule continueSequence_cong)
       (simp_all add: sampledOutput_falsy [OF f] argMaxBranch_def fun_eq_iff)
  with ex_run_falsy [OF f, of exBias "exWeb exBias" "[3, 9]"] show ?thesis
    by (simp add: argmax_exBias length_exBias)
qed

text \<open>
  C10. Every call of continueSequence constructs its converter with the note range 48
  to 84 and the melody's own \<open>totalQuantizedSteps\<close>, whatever the melody, the steps and
  the temperature: when \<open>toTensor\<close> of the converter with these settings throws, the
  call fails with that error and an unchanged state; a call that returns has encoded the
  melody with these settings; and a converter that refuses every other setting changes
  no outcome. The two bounds are the constants of the module, which no argument of the
  call reaches.
\<close>

theorem converter_bounds_fixed:
  "(dl_toTensor lib \<lparr> numSteps = totalQuantizedSteps sequence, minPitch = 48, maxPitch = 84 \<rparr>
      sequence = Inl e \<longrightarrow>
    continueSequence lib sequence steps temperature s = (Inl e, s))
   \<and> (continueSequence lib sequence steps temperature s = (Inr outputs, s') \<longrightarrow>
        (\<exists>inputs. dl_toTensor lib
                     \<lparr> numSteps = totalQuantizedSteps sequence, minPitch = 48, maxPitch = 84 \<rparr>
                     sequence = Inr inputs))
   \<and> continueSequence
       (lib\<lparr>dl_toTensor := \<lambda>cv sq.
              if cv = \<lparr> numSteps = totalQuantizedSteps sequence, minPitch = 48, maxPitch = 84 \<rparr>
              then dl_toTensor lib cv sq else Inl ConversionError\<rparr>)
       sequence steps temperature s
     = continueSequence lib sequence steps temperature s
   \<and> DEFAULT_MIN_NOTE = 48 \<and> DEFAULT_MAX_NOTE = 84"
proof (intro conjI impI)
  assume "dl_toTensor lib \<lparr> numSteps = totalQuantizedSteps sequence, minPitch = 48, maxPitch = 84 \<rparr>
      sequence = Inl e"
  then show "continueSequence lib sequence steps temperature s = (Inl e, s)"
    by (rule toTensor_error_first)
next
  assume "continueSequence lib sequence steps temperature s = (Inr outputs, s')"
  from continueSequence_Inr [OF this]
  show "\<exists>inputs. dl_toTensor lib
          \<lparr> numSteps = totalQuantizedSteps sequence, minPitch = 48, maxPitch = 84 \<rparr>
          sequence = Inr inputs"
    by blast
next
  show "continueSequence
       (lib\<lparr>dl_toTensor := \<lambda>cv sq.
              if cv = \<lparr> numSteps = totalQuantizedSteps sequence, minPitch = 48, maxPitch = 84 \<rparr>
              then dl_toTensor lib cv sq else Inl ConversionError\<rparr>)
       sequence steps temperature s
     = continueSequence lib sequence steps temperature s"
    by (rule continueSequence_cong)
       (simp_all add: sampledOutput_def argMaxBranch_def multinomialBranch_def fun_eq_iff
          cong: option.case_cong if_cong)
qed (simp_all add: DEFAULT_MIN_NOTE_def DEFAULT_MAX_NOTE_def)

theorem converter_bounds_fixed_witness:
  "dl_toTensor (refLib (exWeb exBias))
     \<lparr> numSteps = totalQuantizedSteps lowSeq, minPitch = 48, maxPitch = 84 \<rparr> lowSeq
   = Inl ConversionError
   \<and> continueSequence (refLib (exWeb exBias)) lowSeq 2 None (exState exBias [])
     = (Inl ConversionError, exState exBias [])
   \<and> continueSequence
       ((refLib (exWeb exBias))\<lparr>dl_toTensor :=
          refusingAt \<lparr> numSteps = Some 1, minPitch = 48, maxPitch = 84 \<rparr>\<rparr>)
       exSeq 2 None (exState exBias [])
     = (Inl ConversionError, exState exBias [])
   \<and> continueSequence (refLib (exWeb exBias)) exSeq 2 None (exState exBias [])
     = (Inr [Num 7, Num 7], exState exBias [])
   \<and> dl_toTensor (refLib (exWeb exBias))
       \<lparr> numSteps = totalQuantizedSteps exSeq, minPitch = 48, maxPitch = 84 \<rparr> exSeq
     = Inr (Mat 38 [oneHotRow 38 14])
   \<and> continueSequence
       ((refLib (exWeb exBias))\<lparr>dl_toTensor :=
          onlyAt \<lparr> numSteps = Some 1, minPitch = 48, maxPitch = 84 \<rparr>\<rparr>)
       exSeq 2 None (exState exBias [])
     = (Inr [Num 7, Num 7], exState exBias [])"
proof -
  let ?L = "refLib (exWeb exBias)" and ?st = "exState exBias []"
  let ?cv = "\<lparr> numSteps = Some 1, minPitch = 48, maxPitch = 84 \<rparr>"
  note th = converter_bounds_fixed [where steps = 2 and temperature = None and s = ?st
      and e = ConversionError]
  have h1: "dl_toTensor ?L \<lparr> numSteps = totalQuantizedSteps lowSeq, minPitch = 48, maxPitch = 84 \<rparr>
              lowSeq = Inl ConversionError"
    by (simp add: refLib_def ref_toTensor_def lowSeq_def)
  from th [where lib = ?L and sequence = lowSeq] h1
  have a: "continueSequence ?L lowSeq 2 None ?st = (Inl ConversionError, ?st)" by blast
  have h2: "dl_toTensor (?L\<lparr>dl_toTensor := refusingAt ?cv\<rparr>)
              \<lparr> numSteps = totalQuantizedSteps exSeq, minPitch = 48, maxPitch = 84 \<rparr> exSeq
            = Inl ConversionError"
    by (simp add: refusingAt_def exSeq_def)
  from th [where lib = "?L\<lparr>dl_toTensor := refusingAt ?cv\<rparr>" and sequence = exSeq] h2
  have b: "continueSequence (?L\<lparr>dl_toTensor := refusingAt ?cv\<rparr>) exSeq 2 None ?st
           = (Inl ConversionError, ?st)"
    by blast
  have "falsy None" by (simp add: falsy_def)
  from ex_run_falsy [OF this, of exBias "exWeb exBias" "[]"]
  have run: "continueSequence ?L exSeq 2 None ?st = (Inr [Num 7, Num 7], ?st)"
    by (simp add: argmax_exBias length_exBias)
  from th [where lib = ?L and sequence = exSeq and outputs = "[Num 7, Num 7]" and s' = ?st] run
  obtain inputs where "dl_toTensor ?L
      \<lparr> numSteps = totalQuantizedSteps exSeq, minPitch = 48, maxPitch = 84 \<rparr> exSeq = Inr inputs"
    by blast
  with ex_start(1) [of "exWeb exBias"]
  have c: "dl_toTensor ?L \<lparr> numSteps = totalQuantizedSteps exSeq, minPitch = 48, maxPitch = 84 \<rparr> exSeq
           = Inr (Mat 38 [oneHotRow 38 14])"
    by simp
  have o: "onlyAt ?cv = (\<lambda>cv sq.
              if cv = \<lparr> numSteps = totalQuantizedSteps exSeq, minPitch = 48, maxPitch = 84 \<rparr>
              then dl_toTensor ?L cv sq else Inl ConversionError)"
    by (simp add: onlyAt_def fun_eq_iff exSeq_def refLib_def)
  from th [where lib = ?L and sequence = exSeq]
  have "continueSequence
       (?L\<lparr>dl_toTensor := \<lambda>cv sq.
              if cv = \<lparr> numSteps = totalQuantizedSteps exSeq, minPitch = 48, maxPitch = 84 \<rparr>
              then dl_toTensor ?L cv sq else Inl ConversionError\<rparr>)
       exSeq 2 None ?st
     = continueSequence ?L exSeq 2 None ?st"
    by blast
  with run have d: "continueSequence (?L\<lparr>dl_toTensor := onlyAt ?cv\<rparr>) exSeq 2 None ?st
           = (Inr [Num 7, Num 7], ?st)"
    unfolding o by simp
  from h1 a b run c d show ?thesis by blast
qed

end
